theory Spec2Isabelle
  imports Main "HOL-Library.Word"
begin

section \<open>The String type of PL/Java (src/C/pljava/type/String.c)\<close>

text \<open>
  \<^verbatim>\<open>String.c\<close> is C code that runs inside a PostgreSQL backend and talks to a Java VM
  through JNI. Every function of the file is straight-line code over three kinds of
  state: the static type cache \<^verbatim>\<open>s_cache\<close>, memory obtained from \<^verbatim>\<open>palloc\<close>, and the
  local references and string buffers handed out by the VM. The embedding threads one
  record, \<open>world\<close>, through the functions. Calls into PostgreSQL and into the VM are
  written to a trace, so that a statement of the form "the routine is not invoked" is a
  statement about the trace.
\<close>

subsection \<open>Values\<close>

type_synonym byte = "8 word"
type_synonym jchar = "16 word"
type_synonym Oid = "32 word"

text \<open>A \<^verbatim>\<open>Datum\<close> is a pointer-sized unsigned integer; a pointer is an address, 0 is
  \<^verbatim>\<open>NULL\<close>; a \<^verbatim>\<open>jobject\<close> (and a \<^verbatim>\<open>jstring\<close>) is a JNI handle, 0 is the null handle.\<close>

type_synonym Datum = nat
type_synonym pointer = nat
type_synonym jobject = nat

datatype pg_enc = PG_SQL_ASCII | PG_EUC_JP | PG_UTF8 | PG_LATIN1

datatype jmethodID = s_Object_toString

text \<open>The fields of a \<^verbatim>\<open>pg_type\<close> row that \<^verbatim>\<open>String_create\<close> reads.\<close>

record Form_pg_type =
  typoutput :: Oid
  typinput :: Oid
  typelem :: Oid

record FmgrInfo =
  fn_oid :: Oid

record TypeClass =
  JNISignature :: string
  javaTypeName :: string
  instanceSize :: nat

text \<open>\<^verbatim>\<open>struct String_\<close>: the class and type id every \<^verbatim>\<open>Type\<close> carries, then the
  payload of the String kind.\<close>

record String_ =
  m_class :: TypeClass
  m_oid :: Oid
  textOutput :: FmgrInfo
  textInput :: FmgrInfo
  elementType :: Oid

text \<open>A pointer to a function from \<^verbatim>\<open>Oid\<close> to \<^verbatim>\<open>Type\<close>, as \<^verbatim>\<open>Type_registerPgType\<close> takes
  it.\<close>

datatype TypeObtainer = Fn_String_obtain | Fn_other nat

text \<open>What lives at an address handed out by \<^verbatim>\<open>palloc\<close>: a C string (the bytes, followed
  by a terminating NUL that is not stored) or a \<^verbatim>\<open>text\<close> varlena (the size word of its
  header, then its data).\<close>

datatype chunk = CString "byte list" | Varlena int "byte list"

text \<open>A Java object, as far as this file can observe it: a \<^verbatim>\<open>java.lang.String\<close> with its
  UTF-16 content, or any other object with what its \<^verbatim>\<open>toString()\<close> does.\<close>

datatype toString_outcome = Returns "jchar list" | ReturnsNull | Throws

datatype java_object = JavaString "jchar list" | JavaObject toString_outcome

datatype error =
    CatalogLookupFailure
  | ConversionRoutineFailure
  | EncodingConversionFailure
  | Fault

datatype event =
    GetValidTuple Oid
  | ReleaseSysCache Oid
  | FunctionCall3 FmgrInfo Datum Oid int
  | EncodingConversion pointer int pg_enc pg_enc "pointer option"
  | Palloc pointer
  | Pfree pointer
  | NewStringUTF pointer jobject
  | CallObjectMethod jobject jmethodID
  | GetStringUTFChars jobject pointer
  | ReleaseStringUTFChars jobject pointer
  | DeleteLocalRef jobject

subsection \<open>The collaborators\<close>

text \<open>
  PostgreSQL and the Java VM are not part of the file. What they compute is a parameter
  of the embedding: the catalog, the conversion routines behind the \<^verbatim>\<open>FmgrInfo\<close> handles
  (\<open>None\<close> when the routine reports an ERROR), the database encoding, what
  \<^verbatim>\<open>pg_do_encoding_conversion\<close> does to a byte sequence, and the VM's codec between
  modified UTF-8 and the content of a \<^verbatim>\<open>java.lang.String\<close>.
\<close>

datatype conversion = NoConversion | Converted "byte list" | ConversionFails

record env =
  GetDatabaseEncoding :: pg_enc
  syscache :: "Oid \<Rightarrow> Form_pg_type option"
  output_routine :: "Oid \<Rightarrow> Datum \<Rightarrow> Oid \<Rightarrow> int \<Rightarrow> byte list option"
  input_routine :: "Oid \<Rightarrow> byte list \<Rightarrow> Oid \<Rightarrow> int \<Rightarrow> Datum option"
  encoding_conversion :: "pg_enc \<Rightarrow> pg_enc \<Rightarrow> byte list \<Rightarrow> conversion"
  utf_decode :: "byte list \<Rightarrow> jchar list"
  utf_encode :: "jchar list \<Rightarrow> byte list"

subsection \<open>The state\<close>

record world =
  s_StringClass :: TypeClass
  s_cache :: "Oid \<Rightarrow> pointer option"
  obtainerByOid :: "Oid \<Rightarrow> TypeObtainer option"
  obtainerByJavaName :: "string \<Rightarrow> TypeObtainer option"
  instances :: "pointer \<Rightarrow> String_ option"
  chunks :: "pointer \<Rightarrow> chunk option"
  utfchars :: "pointer \<Rightarrow> byte list option"
  stringinfos :: "pointer \<Rightarrow> byte list option"
  brk :: nat
  localrefs :: "jobject \<Rightarrow> java_object option"
  refs_made :: nat
  exception_pending :: bool
  trace :: "event list"

type_synonym 'a outcome = "(error + 'a) \<times> world"

definition emit :: "event \<Rightarrow> world \<Rightarrow> world" where
  "emit e w = w\<lparr>trace := trace w @ [e]\<rparr>"

definition ok :: "'a \<Rightarrow> world \<Rightarrow> 'a outcome" where
  "ok x w = (Inr x, w)"

definition raise :: "error \<Rightarrow> world \<Rightarrow> 'a outcome" where
  "raise e w = (Inl e, w)"

text \<open>Sequencing: an ERROR (a \<^verbatim>\<open>longjmp\<close> out of the function) or a fault skips the rest.\<close>

definition andthen :: "'a outcome \<Rightarrow> ('a \<Rightarrow> world \<Rightarrow> 'b outcome) \<Rightarrow> 'b outcome" where
  "andthen r f = (case r of (Inl e, w) \<Rightarrow> (Inl e, w) | (Inr x, w) \<Rightarrow> f x w)"

text \<open>The events a call added to the trace.\<close>

definition events_since :: "world \<Rightarrow> world \<Rightarrow> event list" where
  "events_since w w' = drop (length (trace w)) (trace w')"

subsection \<open>Memory\<close>

definition VARHDRSZ :: nat where
  "VARHDRSZ = 4"

definition VARDATA :: "pointer \<Rightarrow> pointer" where
  "VARDATA t = t + VARHDRSZ"

definition chunk_size :: "chunk \<Rightarrow> nat" where
  "chunk_size c = (case c of CString bs \<Rightarrow> length bs + 1 | Varlena sz d \<Rightarrow> nat sz)"

text \<open>\<^verbatim>\<open>palloc\<close> never returns \<^verbatim>\<open>NULL\<close>; the address is new.\<close>

definition palloc :: "chunk \<Rightarrow> world \<Rightarrow> pointer \<times> world" where
  "palloc c w =
     (let p = Suc (brk w)
      in (p, emit (Palloc p) (w\<lparr>chunks := (chunks w)(p \<mapsto> c), brk := p + chunk_size c\<rparr>)))"

text \<open>\<^verbatim>\<open>pfree\<close> of an address that is not a live chunk (the null pointer, a chunk freed
  before, memory of the VM) is a fault.\<close>

definition pfree :: "pointer \<Rightarrow> world \<Rightarrow> unit outcome" where
  "pfree p w =
     (case chunks w p of
        None \<Rightarrow> raise Fault (emit (Pfree p) w)
      | Some c \<Rightarrow> ok () (emit (Pfree p) (w\<lparr>chunks := (chunks w)(p := None)\<rparr>)))"

text \<open>The bytes stored from an address on: the content of a C string chunk, the content
  of a buffer of the VM, or the data of the varlena whose header starts \<^verbatim>\<open>VARHDRSZ\<close>
  bytes before. Reading anywhere else is a fault.\<close>

definition bytes_at :: "world \<Rightarrow> pointer \<Rightarrow> byte list option" where
  "bytes_at w p =
     (case chunks w p of
        Some (CString bs) \<Rightarrow> Some bs
      | Some (Varlena sz d) \<Rightarrow> None
      | None \<Rightarrow>
          (case utfchars w p of
             Some bs \<Rightarrow> Some bs
           | None \<Rightarrow>
               if VARHDRSZ \<le> p then
                 (case chunks w (p - VARHDRSZ) of
                    Some (Varlena sz d) \<Rightarrow> Some d
                  | _ \<Rightarrow> None)
               else None))"

text \<open>A NUL-terminated read stops at the first NUL byte, or at the end of the stored
  bytes (where the terminator of a C string is).\<close>

definition cstring :: "byte list \<Rightarrow> byte list" where
  "cstring bs = takeWhile (\<lambda>b. b \<noteq> 0) bs"

definition strlen :: "pointer \<Rightarrow> world \<Rightarrow> nat outcome" where
  "strlen p w =
     (case bytes_at w p of None \<Rightarrow> raise Fault w | Some bs \<Rightarrow> ok (length (cstring bs)) w)"

definition VARSIZE :: "pointer \<Rightarrow> world \<Rightarrow> int outcome" where
  "VARSIZE t w =
     (case chunks w t of Some (Varlena sz d) \<Rightarrow> ok sz w | _ \<Rightarrow> raise Fault w)"

definition pstrdup :: "pointer \<Rightarrow> world \<Rightarrow> pointer outcome" where
  "pstrdup p w =
     (case bytes_at w p of
        None \<Rightarrow> raise Fault w
      | Some bs \<Rightarrow> (let (r, w1) = palloc (CString (cstring bs)) w in ok r w1))"

text \<open>\<^verbatim>\<open>pg_do_encoding_conversion(src, len, src_encoding, dest_encoding)\<close> of PostgreSQL:
  it reads \<open>len\<close> bytes and returns \<open>src\<close> itself when no conversion is required, a new
  \<^verbatim>\<open>palloc\<close>'ed C string otherwise, or reports an ERROR.\<close>

definition pg_do_encoding_conversion ::
  "env \<Rightarrow> pointer \<Rightarrow> int \<Rightarrow> pg_enc \<Rightarrow> pg_enc \<Rightarrow> world \<Rightarrow> pointer outcome" where
  "pg_do_encoding_conversion E src len src_encoding dest_encoding w =
     (case bytes_at w src of
        None \<Rightarrow> raise Fault w
      | Some bs \<Rightarrow>
          (case encoding_conversion E src_encoding dest_encoding (take (nat len) bs) of
             NoConversion \<Rightarrow>
               ok src (emit (EncodingConversion src len src_encoding dest_encoding (Some src)) w)
           | Converted out \<Rightarrow>
               (let (r, w1) = palloc (CString out) w
                in ok r (emit (EncodingConversion src len src_encoding dest_encoding (Some r)) w1))
           | ConversionFails \<Rightarrow>
               raise EncodingConversionFailure
                 (emit (EncodingConversion src len src_encoding dest_encoding None) w)))"

subsection \<open>The function manager\<close>

text \<open>\<^verbatim>\<open>FunctionCall3(&textOutput, arg, elementType, -1)\<close>: the output routine renders the
  value as a C string in new memory and returns the pointer as a \<^verbatim>\<open>Datum\<close>.\<close>

definition FunctionCall3_output ::
  "env \<Rightarrow> FmgrInfo \<Rightarrow> Datum \<Rightarrow> Oid \<Rightarrow> int \<Rightarrow> world \<Rightarrow> Datum outcome" where
  "FunctionCall3_output E flinfo arg1 arg2 arg3 w =
     (let w1 = emit (FunctionCall3 flinfo arg1 arg2 arg3) w
      in case output_routine E (fn_oid flinfo) arg1 arg2 arg3 of
           None \<Rightarrow> raise ConversionRoutineFailure w1
         | Some bs \<Rightarrow> (let (p, w2) = palloc (CString bs) w1 in ok p w2))"

text \<open>\<^verbatim>\<open>FunctionCall3(&textInput, CStringGetDatum(tmp), elementType, -1)\<close>: the input
  routine reads the C string its first argument points to.\<close>

definition FunctionCall3_input ::
  "env \<Rightarrow> FmgrInfo \<Rightarrow> Datum \<Rightarrow> Oid \<Rightarrow> int \<Rightarrow> world \<Rightarrow> Datum outcome" where
  "FunctionCall3_input E flinfo arg1 arg2 arg3 w =
     (let w1 = emit (FunctionCall3 flinfo arg1 arg2 arg3) w
      in case bytes_at w1 arg1 of
           None \<Rightarrow> raise Fault w1
         | Some bs \<Rightarrow>
             (case input_routine E (fn_oid flinfo) (cstring bs) arg2 arg3 of
                None \<Rightarrow> raise ConversionRoutineFailure w1
              | Some d \<Rightarrow> ok d w1))"

definition DatumGetCString :: "Datum \<Rightarrow> pointer" where
  "DatumGetCString d = d"

definition CStringGetDatum :: "pointer \<Rightarrow> Datum" where
  "CStringGetDatum p = p"

definition fmgr_info_cxt :: "Oid \<Rightarrow> FmgrInfo" where
  "fmgr_info_cxt functionId = \<lparr>fn_oid = functionId\<rparr>"

subsection \<open>JNI\<close>

text \<open>Modelled from the spec: the JNI wrappers of \<^verbatim>\<open>pljava/JNICalls.c\<close> are not in the
  source tree. The managed-runtime collaborator offers "creation of a managed string
  from a byte buffer; extraction of a byte buffer from a managed string; invocation of
  an arbitrary zero-argument stringify capability on any managed object, with an
  exception-check operation that must be polled immediately after any such invocation;
  creation/release of local handles". A call whose method throws returns the null
  handle and leaves the exception pending; no handle is made for it.\<close>

definition new_local_ref :: "java_object \<Rightarrow> world \<Rightarrow> jobject \<times> world" where
  "new_local_ref obj w =
     (let h = Suc (refs_made w)
      in (h, w\<lparr>localrefs := (localrefs w)(h \<mapsto> obj), refs_made := h\<rparr>))"

definition JNI_newStringUTF :: "env \<Rightarrow> pointer \<Rightarrow> world \<Rightarrow> jobject outcome" where
  "JNI_newStringUTF E bytes w =
     (case bytes_at w bytes of
        None \<Rightarrow> raise Fault w
      | Some bs \<Rightarrow>
          (let (h, w1) = new_local_ref (JavaString (utf_decode E (cstring bs))) w
           in ok h (emit (NewStringUTF bytes h) w1)))"

definition JNI_callObjectMethod :: "jobject \<Rightarrow> jmethodID \<Rightarrow> world \<Rightarrow> jobject outcome" where
  "JNI_callObjectMethod object methodID w =
     (let w1 = emit (CallObjectMethod object methodID) w
      in case localrefs w object of
           None \<Rightarrow> raise Fault w1
         | Some (JavaString cs) \<Rightarrow> (let (h, w2) = new_local_ref (JavaString cs) w1 in ok h w2)
         | Some (JavaObject (Returns cs)) \<Rightarrow>
             (let (h, w2) = new_local_ref (JavaString cs) w1 in ok h w2)
         | Some (JavaObject ReturnsNull) \<Rightarrow> ok 0 w1
         | Some (JavaObject Throws) \<Rightarrow> ok 0 (w1\<lparr>exception_pending := True\<rparr>))"

definition JNI_exceptionCheck :: "world \<Rightarrow> bool" where
  "JNI_exceptionCheck w = exception_pending w"

definition JNI_deleteLocalRef :: "jobject \<Rightarrow> world \<Rightarrow> world" where
  "JNI_deleteLocalRef object w =
     emit (DeleteLocalRef object) (w\<lparr>localrefs := (localrefs w)(object := None)\<rparr>)"

definition JNI_getStringUTFChars :: "env \<Rightarrow> jobject \<Rightarrow> world \<Rightarrow> pointer outcome" where
  "JNI_getStringUTFChars E string w =
     (case localrefs w string of
        Some (JavaString cs) \<Rightarrow>
          (let p = Suc (brk w);
               bs = utf_encode E cs
           in ok p (emit (GetStringUTFChars string p)
                     (w\<lparr>utfchars := (utfchars w)(p \<mapsto> bs), brk := p + length bs + 1\<rparr>)))
      | _ \<Rightarrow> raise Fault w)"

definition JNI_releaseStringUTFChars :: "jobject \<Rightarrow> pointer \<Rightarrow> world \<Rightarrow> world" where
  "JNI_releaseStringUTFChars string p w =
     emit (ReleaseStringUTFChars string p) (w\<lparr>utfchars := (utfchars w)(p := None)\<rparr>)"

subsection \<open>The hash map, the catalog and the registry\<close>

text \<open>Modelled from the spec: \<^verbatim>\<open>pljava/HashMap.c\<close> is not in the source tree. The cache
  is a "mapping from database-type-identifier to TypeDescriptor, populated lazily,
  append-only"; a lookup of an absent key yields the null pointer, which is what
  \<^verbatim>\<open>String.c\<close> tests for.\<close>

definition HashMap_getByOid :: "(Oid \<Rightarrow> pointer option) \<Rightarrow> Oid \<Rightarrow> pointer" where
  "HashMap_getByOid m k = (case m k of None \<Rightarrow> 0 | Some v \<Rightarrow> v)"

definition HashMap_putByOid ::
  "(Oid \<Rightarrow> pointer option) \<Rightarrow> Oid \<Rightarrow> pointer \<Rightarrow> (Oid \<Rightarrow> pointer option)" where
  "HashMap_putByOid m k v = m(k \<mapsto> v)"

text \<open>Modelled from the spec: \<^verbatim>\<open>PgObject_getValidTuple\<close> (\<^verbatim>\<open>pljava/PgObject.c\<close>) is not in
  the source tree: "a function to resolve a type identifier to its catalog row (fails
  if the identifier is invalid)", the failure being CatalogLookupFailure.\<close>

definition PgObject_getValidTuple :: "env \<Rightarrow> Oid \<Rightarrow> world \<Rightarrow> Form_pg_type outcome" where
  "PgObject_getValidTuple E tupleId w =
     (let w1 = emit (GetValidTuple tupleId) w
      in case syscache E tupleId of
           None \<Rightarrow> raise CatalogLookupFailure w1
         | Some row \<Rightarrow> ok row w1)"

text \<open>Modelled from the spec: \<^verbatim>\<open>TypeClass_allocInstance\<close> (\<^verbatim>\<open>pljava/type/Type.c\<close>) is not
  in the source tree: "constructing a new TypeDescriptor of a given kind allocates a
  payload of the size declared by that kind's TypeClass". The payload is filled in by
  the caller.\<close>

definition TypeClass_allocInstance :: "TypeClass \<Rightarrow> Oid \<Rightarrow> world \<Rightarrow> pointer \<times> world" where
  "TypeClass_allocInstance cls typeId w =
     (let p = Suc (brk w)
      in (p, w\<lparr>instances := (instances w)(p \<mapsto>
                  \<lparr>m_class = cls, m_oid = typeId, textOutput = \<lparr>fn_oid = 0\<rparr>,
                   textInput = \<lparr>fn_oid = 0\<rparr>, elementType = 0\<rparr>),
               brk := p + instanceSize cls\<rparr>))"

text \<open>Modelled from the spec: \<^verbatim>\<open>Type_registerPgType\<close> and \<^verbatim>\<open>Type_registerJavaType\<close>
  (\<^verbatim>\<open>pljava/type/Type.c\<close>) are not in the source tree: "register(key, factory): inserts
  unconditionally; re-registering the same key overwrites the previous factory".\<close>

definition Type_registerPgType :: "Oid \<Rightarrow> TypeObtainer \<Rightarrow> world \<Rightarrow> world" where
  "Type_registerPgType typeId obtainer w =
     w\<lparr>obtainerByOid := (obtainerByOid w)(typeId \<mapsto> obtainer)\<rparr>"

definition Type_registerJavaType :: "string \<Rightarrow> TypeObtainer \<Rightarrow> world \<Rightarrow> world" where
  "Type_registerJavaType javaName obtainer w =
     w\<lparr>obtainerByJavaName := (obtainerByJavaName w)(javaName \<mapsto> obtainer)\<rparr>"

subsection \<open>The functions of String.c\<close>

text \<open>\<^verbatim>\<open>_String_canReplaceType\<close>.\<close>

definition String_canReplaceType :: "pointer \<Rightarrow> pointer \<Rightarrow> bool" where
  "String_canReplaceType self type = True"

text \<open>\<^verbatim>\<open>String_create\<close>.\<close>

definition String_create :: "TypeClass \<Rightarrow> Oid \<Rightarrow> Form_pg_type \<Rightarrow> world \<Rightarrow> pointer \<times> world" where
  "String_create cls typeId pgType w =
     (let (self, w1) = TypeClass_allocInstance cls typeId w
      in (self,
          w1\<lparr>instances := (instances w1)(self \<mapsto>
                \<lparr>m_class = cls, m_oid = typeId,
                 textOutput = fmgr_info_cxt (typoutput pgType),
                 textInput = fmgr_info_cxt (typinput pgType),
                 elementType = typelem pgType\<rparr>)\<rparr>))"

definition String_fromPgType :: "Oid \<Rightarrow> Form_pg_type \<Rightarrow> world \<Rightarrow> pointer \<times> world" where
  "String_fromPgType typeId pgType w =
     (let self = HashMap_getByOid (s_cache w) typeId
      in if self = 0 then
           (let (self, w1) = String_create (s_StringClass w) typeId pgType w
            in (self, w1\<lparr>s_cache := HashMap_putByOid (s_cache w1) typeId self\<rparr>))
         else (self, w))"

definition StringClass_obtain :: "env \<Rightarrow> TypeClass \<Rightarrow> Oid \<Rightarrow> world \<Rightarrow> pointer outcome" where
  "StringClass_obtain E self typeId w =
     (let infant = HashMap_getByOid (s_cache w) typeId
      in if infant = 0 then
           andthen (PgObject_getValidTuple E typeId w) (\<lambda>typeTup w.
             let (infant, w1) = String_create self typeId typeTup w;
                 w2 = emit (ReleaseSysCache typeId) w1
             in ok infant (w2\<lparr>s_cache := HashMap_putByOid (s_cache w2) typeId infant\<rparr>))
         else ok infant w)"

definition String_obtain :: "env \<Rightarrow> Oid \<Rightarrow> world \<Rightarrow> pointer outcome" where
  "String_obtain E typeId w = StringClass_obtain E (s_StringClass w) typeId w"

text \<open>\<^verbatim>\<open>String_createJavaString\<close>. Where no conversion is required, \<^verbatim>\<open>JNI_newStringUTF\<close>
  reads the data of the varlena as far as the model stores it.\<close>

definition String_createJavaString :: "env \<Rightarrow> pointer \<Rightarrow> world \<Rightarrow> jobject outcome" where
  "String_createJavaString E t w =
     (if t \<noteq> 0 then
        (let src = VARDATA t
         in andthen (VARSIZE t w) (\<lambda>varsize w.
              let srcLen = varsize - int VARHDRSZ
              in if srcLen = 0 then ok 0 w
                 else
                   andthen (pg_do_encoding_conversion E src srcLen
                              (GetDatabaseEncoding E) PG_UTF8 w) (\<lambda>utf8 w.
                   andthen (JNI_newStringUTF E utf8 w) (\<lambda>result w.
                   if utf8 \<noteq> src then andthen (pfree utf8 w) (\<lambda>_ w. ok result w)
                   else ok result w))))
      else ok 0 w)"

text \<open>\<^verbatim>\<open>String_createJavaStringFromNTS\<close>.\<close>

definition String_createJavaStringFromNTS :: "env \<Rightarrow> pointer \<Rightarrow> world \<Rightarrow> jobject outcome" where
  "String_createJavaStringFromNTS E cp w =
     (if cp \<noteq> 0 then
        andthen (strlen cp w) (\<lambda>n w.
        andthen (pg_do_encoding_conversion E cp (int n) (GetDatabaseEncoding E) PG_UTF8 w)
          (\<lambda>utf8 w.
        andthen (JNI_newStringUTF E utf8 w) (\<lambda>result w.
        if utf8 \<noteq> cp then andthen (pfree utf8 w) (\<lambda>_ w. ok result w)
        else ok result w)))
      else ok 0 w)"

text \<open>\<^verbatim>\<open>String_createText\<close>. The three statements that allocate the \<^verbatim>\<open>text\<close>, set its size
  word and copy \<open>dencLen\<close> bytes into its data are one step of the model.\<close>

definition String_createText :: "env \<Rightarrow> jobject \<Rightarrow> world \<Rightarrow> pointer outcome" where
  "String_createText E javaString w =
     (if javaString \<noteq> 0 then
        andthen (JNI_getStringUTFChars E javaString w) (\<lambda>utf8 w.
        andthen (strlen utf8 w) (\<lambda>n w.
        andthen (pg_do_encoding_conversion E utf8 (int n) PG_UTF8 (GetDatabaseEncoding E) w)
          (\<lambda>denc w.
        andthen (strlen denc w) (\<lambda>dencLen w.
          let varSize = int dencLen + int VARHDRSZ
          in (case bytes_at w denc of
                None \<Rightarrow> raise Fault w
              | Some bs \<Rightarrow>
                  (let (result, w1) = palloc (Varlena varSize (take dencLen bs)) w
                   in if denc \<noteq> utf8 then
                        andthen (pfree denc w1) (\<lambda>_ w.
                          ok result (JNI_releaseStringUTFChars javaString utf8 w))
                      else ok result (JNI_releaseStringUTFChars javaString utf8 w1)))))))
      else ok 0 w)"

text \<open>\<^verbatim>\<open>String_createNTS\<close>.\<close>

definition String_createNTS :: "env \<Rightarrow> jobject \<Rightarrow> world \<Rightarrow> pointer outcome" where
  "String_createNTS E javaString w =
     (if javaString \<noteq> 0 then
        andthen (JNI_getStringUTFChars E javaString w) (\<lambda>utf8 w.
        andthen (strlen utf8 w) (\<lambda>n w.
        andthen (pg_do_encoding_conversion E utf8 (int n) PG_UTF8 (GetDatabaseEncoding E) w)
          (\<lambda>result w.
        if result = utf8 then
          andthen (pstrdup result w) (\<lambda>result w.
            ok result (JNI_releaseStringUTFChars javaString utf8 w))
        else ok result (JNI_releaseStringUTFChars javaString utf8 w))))
      else ok 0 w)"

text \<open>\<^verbatim>\<open>appendStringInfoString\<close> of PostgreSQL appends a C string to the buffer.\<close>

definition appendStringInfoString :: "pointer \<Rightarrow> pointer \<Rightarrow> world \<Rightarrow> unit outcome" where
  "appendStringInfoString buf s w =
     (case stringinfos w buf of
        None \<Rightarrow> raise Fault w
      | Some old \<Rightarrow>
          (case bytes_at w s of
             None \<Rightarrow> raise Fault w
           | Some bs \<Rightarrow> ok () (w\<lparr>stringinfos := (stringinfos w)(buf \<mapsto> old @ cstring bs)\<rparr>)))"

text \<open>\<^verbatim>\<open>String_appendJavaString\<close>.\<close>

definition String_appendJavaString :: "env \<Rightarrow> pointer \<Rightarrow> jobject \<Rightarrow> world \<Rightarrow> unit outcome" where
  "String_appendJavaString E buf javaString w =
     (if javaString \<noteq> 0 then
        andthen (JNI_getStringUTFChars E javaString w) (\<lambda>utf8 w.
        andthen (strlen utf8 w) (\<lambda>n w.
        andthen (pg_do_encoding_conversion E utf8 (int n) PG_UTF8 (GetDatabaseEncoding E) w)
          (\<lambda>dbEnc w.
        andthen (appendStringInfoString buf dbEnc w) (\<lambda>_ w.
        if dbEnc \<noteq> utf8 then
          andthen (pfree dbEnc w) (\<lambda>_ w.
            ok () (JNI_releaseStringUTFChars javaString utf8 w))
        else ok () (JNI_releaseStringUTFChars javaString utf8 w)))))
      else ok () w)"

text \<open>\<^verbatim>\<open>_String_coerceDatum\<close>. The descriptor is not written after its construction; the
  coercions take the \<^verbatim>\<open>struct String_\<close> that \<open>self\<close> points to.\<close>

definition String_coerceDatum :: "env \<Rightarrow> String_ \<Rightarrow> Datum \<Rightarrow> world \<Rightarrow> jobject outcome" where
  "String_coerceDatum E self arg w =
     andthen (FunctionCall3_output E (textOutput self) arg (elementType self) (- 1) w)
       (\<lambda>d w.
          let tmp = DatumGetCString d
          in andthen (String_createJavaStringFromNTS E tmp w) (\<lambda>result w.
             andthen (pfree tmp w) (\<lambda>_ w. ok result w)))"

text \<open>\<^verbatim>\<open>_String_coerceObject\<close>. After a \<^verbatim>\<open>toString()\<close> that threw, the function returns 0
  and the exception stays pending in the VM.\<close>

definition String_coerceObject :: "env \<Rightarrow> String_ \<Rightarrow> jobject \<Rightarrow> world \<Rightarrow> Datum outcome" where
  "String_coerceObject E self jstr w =
     (if jstr = 0 then ok 0 w
      else
        andthen (JNI_callObjectMethod jstr s_Object_toString w) (\<lambda>jstr w.
          if JNI_exceptionCheck w then ok 0 w
          else
            andthen (String_createNTS E jstr w) (\<lambda>tmp w.
              let w = JNI_deleteLocalRef jstr w
              in andthen (FunctionCall3_input E (textInput self) (CStringGetDatum tmp)
                            (elementType self) (- 1) w) (\<lambda>ret w.
                 andthen (pfree tmp w) (\<lambda>_ w. ok ret w)))))"

subsection \<open>Reading the trace\<close>

text \<open>The pairs (input reference, returned reference) of the calls of the conversion
  primitive that returned, in order.\<close>

fun returned_conversion :: "event \<Rightarrow> (pointer \<times> pointer) list" where
  "returned_conversion (EncodingConversion src len f t (Some r)) = [(src, r)]"
| "returned_conversion e = []"

definition returned_conversions :: "event list \<Rightarrow> (pointer \<times> pointer) list" where
  "returned_conversions evs = concat (map returned_conversion evs)"

text \<open>The references passed to \<^verbatim>\<open>pfree\<close>, in order.\<close>

fun released_by :: "event \<Rightarrow> pointer list" where
  "released_by (Pfree p) = [p]"
| "released_by e = []"

definition released :: "event list \<Rightarrow> pointer list" where
  "released evs = concat (map released_by evs)"

text \<open>The returned references that differ from the input reference of their call.\<close>

definition differing :: "(pointer \<times> pointer) list \<Rightarrow> pointer list" where
  "differing prs = map snd (filter (\<lambda>pr. snd pr \<noteq> fst pr) prs)"

fun is_routine_call :: "event \<Rightarrow> bool" where
  "is_routine_call (FunctionCall3 flinfo a b c) = True"
| "is_routine_call e = False"

fun is_stringify :: "event \<Rightarrow> bool" where
  "is_stringify (CallObjectMethod h m) = True"
| "is_stringify e = False"

text \<open>A call is quiet for a kind of event when the trace only grows and gains no event
  of that kind.\<close>

definition quiet :: "(event \<Rightarrow> bool) \<Rightarrow> world \<Rightarrow> world \<Rightarrow> bool" where
  "quiet P w w' = (\<exists>evs. trace w' = trace w @ evs \<and> filter P evs = [])"

text \<open>A call faulted when the C program would have crashed: it read or freed memory
  that is not there, or used a handle that is not valid.\<close>

definition faulted :: "'a outcome \<Rightarrow> bool" where
  "faulted r = (fst r = Inl Fault)"

text \<open>The four transcoding helpers that compare before they release.\<close>

datatype helper_call =
    CreateJavaString pointer
  | CreateJavaStringFromNTS pointer
  | CreateText jobject
  | AppendJavaString pointer jobject

fun run_helper :: "env \<Rightarrow> helper_call \<Rightarrow> world \<Rightarrow> bool \<times> world" where
  "run_helper E (CreateJavaString t) w =
     (let r = String_createJavaString E t w in (faulted r, snd r))"
| "run_helper E (CreateJavaStringFromNTS cp) w =
     (let r = String_createJavaStringFromNTS E cp w in (faulted r, snd r))"
| "run_helper E (CreateText javaString) w =
     (let r = String_createText E javaString w in (faulted r, snd r))"
| "run_helper E (AppendJavaString buf javaString) w =
     (let r = String_appendJavaString E buf javaString w in (faulted r, snd r))"

text \<open>What a conversion leaves in the buffer it returns.\<close>

definition transcoded :: "env \<Rightarrow> pg_enc \<Rightarrow> pg_enc \<Rightarrow> byte list \<Rightarrow> byte list option" where
  "transcoded E f t bs =
     (case encoding_conversion E f t bs of
        NoConversion \<Rightarrow> Some bs
      | Converted out \<Rightarrow> Some out
      | ConversionFails \<Rightarrow> None)"

text \<open>The string a handle stands for once \<^verbatim>\<open>toString()\<close> has been called on it.\<close>

fun stringified :: "java_object option \<Rightarrow> jchar list option" where
  "stringified (Some (JavaString cs)) = Some cs"
| "stringified (Some (JavaObject (Returns cs))) = Some cs"
| "stringified other = None"

subsection \<open>Sequences of requests to the cache and the registry\<close>

datatype request =
    Obtain Oid
  | ClassObtain TypeClass Oid
  | FromPgType Oid Form_pg_type
  | RegisterPgType Oid TypeObtainer
  | RegisterJavaType string TypeObtainer

fun serve :: "env \<Rightarrow> request \<Rightarrow> world \<Rightarrow> world" where
  "serve E (Obtain t) w = snd (String_obtain E t w)"
| "serve E (ClassObtain cls t) w = snd (StringClass_obtain E cls t w)"
| "serve E (FromPgType t pgType) w = snd (String_fromPgType t pgType w)"
| "serve E (RegisterPgType t f) w = Type_registerPgType t f w"
| "serve E (RegisterJavaType n f) w = Type_registerJavaType n f w"

fun serve_all :: "env \<Rightarrow> request list \<Rightarrow> world \<Rightarrow> world" where
  "serve_all E [] w = w"
| "serve_all E (r # rs) w = serve_all E rs (serve E r w)"

subsection \<open>A concrete database and a concrete VM\<close>

text \<open>A LATIN1 database with the catalog rows of \<^verbatim>\<open>int4\<close> (23) and \<^verbatim>\<open>text\<close> (25), whose
  routines are \<^verbatim>\<open>int4in\<close> (42), \<^verbatim>\<open>int4out\<close> (43), \<^verbatim>\<open>textin\<close> (46) and \<^verbatim>\<open>textout\<close> (47).
  The only character outside ASCII that its conversions know is e-acute: one byte,
  E9, in LATIN1, two bytes, C3 A9, in UTF-8.\<close>

definition hello :: "byte list" where
  "hello = [0x68, 0x65, 0x6C, 0x6C, 0x6F]"

definition hello_utf16 :: "jchar list" where
  "hello_utf16 = [0x68, 0x65, 0x6C, 0x6C, 0x6F]"

definition hello_acute_latin1 :: "byte list" where
  "hello_acute_latin1 = [0x68, 0xE9, 0x6C, 0x6C, 0x6F]"

definition hello_acute_utf8 :: "byte list" where
  "hello_acute_utf8 = [0x68, 0xC3, 0xA9, 0x6C, 0x6C, 0x6F]"

definition hello_acute_utf16 :: "jchar list" where
  "hello_acute_utf16 = [0x68, 0xE9, 0x6C, 0x6C, 0x6F]"

definition latin1_to_utf8 :: "byte list \<Rightarrow> byte list" where
  "latin1_to_utf8 bs = concat (map (\<lambda>b. if b = 0xE9 then [0xC3, 0xA9] else [b]) bs)"

fun utf8_to_latin1 :: "byte list \<Rightarrow> byte list" where
  "utf8_to_latin1 (a # b # bs) =
     (if a = 0xC3 \<and> b = 0xA9 then 0xE9 # utf8_to_latin1 bs else a # utf8_to_latin1 (b # bs))"
| "utf8_to_latin1 bs = bs"

fun utf8_to_utf16 :: "byte list \<Rightarrow> jchar list" where
  "utf8_to_utf16 (a # b # bs) =
     (if a = 0xC3 \<and> b = 0xA9 then 0xE9 # utf8_to_utf16 bs else ucast a # utf8_to_utf16 (b # bs))"
| "utf8_to_utf16 bs = map ucast bs"

definition utf16_to_utf8 :: "jchar list \<Rightarrow> byte list" where
  "utf16_to_utf8 cs = concat (map (\<lambda>c. if c = 0xE9 then [0xC3, 0xA9] else [ucast c]) cs)"

definition demo_env :: env where
  "demo_env =
     \<lparr>GetDatabaseEncoding = PG_LATIN1,
      syscache = (\<lambda>t. if t = 25 then Some \<lparr>typoutput = 47, typinput = 46, typelem = 0\<rparr>
                      else if t = 23 then Some \<lparr>typoutput = 43, typinput = 42, typelem = 0\<rparr>
                      else None),
      output_routine = (\<lambda>f d el tm.
                      if f = 43 \<and> d = 0 then Some [0x30]
                      else if f = 47 \<and> d = 1 then Some hello
                      else if f = 47 \<and> d = 2 then Some hello_acute_latin1
                      else if f = 47 \<and> d = 3 then Some []
                      else None),
      input_routine = (\<lambda>f bs el tm.
                      if f = 42 \<and> bs = [0x30] then Some 0
                      else if f = 46 \<and> bs = hello then Some 1
                      else if f = 46 \<and> bs = hello_acute_latin1 then Some 2
                      else if f = 46 \<and> bs = [] then Some 3
                      else None),
      encoding_conversion = (\<lambda>f t bs.
                      if f = t \<or> bs = [] then NoConversion
                      else if f = PG_LATIN1 \<and> t = PG_UTF8 then Converted (latin1_to_utf8 bs)
                      else if f = PG_UTF8 \<and> t = PG_LATIN1 then Converted (utf8_to_latin1 bs)
                      else ConversionFails),
      utf_decode = utf8_to_utf16,
      utf_encode = utf16_to_utf8\<rparr>"

text \<open>The same, as a UTF-8 database: no conversion is ever required.\<close>

definition demo_env_utf8 :: env where
  "demo_env_utf8 = demo_env\<lparr>GetDatabaseEncoding := PG_UTF8\<rparr>"

definition int4_descriptor :: String_ where
  "int4_descriptor =
     \<lparr>m_class = \<lparr>JNISignature = ''Ljava/lang/String;'', javaTypeName = ''java.lang.String'',
                 instanceSize = 64\<rparr>,
      m_oid = 23, textOutput = \<lparr>fn_oid = 43\<rparr>, textInput = \<lparr>fn_oid = 42\<rparr>, elementType = 0\<rparr>"

definition text_descriptor :: String_ where
  "text_descriptor =
     \<lparr>m_class = \<lparr>JNISignature = ''Ljava/lang/String;'', javaTypeName = ''java.lang.String'',
                 instanceSize = 64\<rparr>,
      m_oid = 25, textOutput = \<lparr>fn_oid = 47\<rparr>, textInput = \<lparr>fn_oid = 46\<rparr>, elementType = 0\<rparr>"

text \<open>A state before the first resolution: the class carries the signature and the Java
  type name that \<^verbatim>\<open>String_initialize\<close> gives it, the cache is empty, nothing is allocated
  and nothing is registered.\<close>

definition fresh_world :: world where
  "fresh_world =
     \<lparr>s_StringClass = \<lparr>JNISignature = ''Ljava/lang/String;'',
                       javaTypeName = ''java.lang.String'', instanceSize = 64\<rparr>,
      s_cache = (\<lambda>t. None),
      obtainerByOid = (\<lambda>t. None),
      obtainerByJavaName = (\<lambda>n. None),
      instances = (\<lambda>p. None),
      chunks = (\<lambda>p. None),
      utfchars = (\<lambda>p. None),
      stringinfos = (\<lambda>p. None),
      brk = 0,
      localrefs = (\<lambda>h. None),
      refs_made = 0,
      exception_pending = False,
      trace = []\<rparr>"

text \<open>A VM in which the caller holds one local reference, handle 1, to an object.\<close>

definition holding :: "java_object \<Rightarrow> world" where
  "holding obj = snd (new_local_ref obj fresh_world)"

text \<open>A state in which a C string lives at address 1.\<close>

definition with_cstring :: "byte list \<Rightarrow> world" where
  "with_cstring bs = snd (palloc (CString bs) fresh_world)"

subsection \<open>Conditions on a state and on a call\<close>

text \<open>No chunk lives beyond the highest address handed out so far, so the next address
  is free.\<close>

definition heap_ok :: "world \<Rightarrow> bool" where
  "heap_ok w = (\<forall>p. brk w < p \<longrightarrow> chunks w p = None)"

text \<open>Compare before release: between two states, the references passed to \<^verbatim>\<open>pfree\<close> are
  exactly the references the conversion primitive returned that differ from the
  reference it was given.\<close>

definition disciplined :: "world \<Rightarrow> world \<Rightarrow> bool" where
  "disciplined w w' =
     (released (events_since w w') = differing (returned_conversions (events_since w w')))"

section \<open>Facts about the primitives\<close>

lemmas prim_defs = andthen_def ok_def raise_def emit_def palloc_def pfree_def strlen_def VARSIZE_def pstrdup_def
  pg_do_encoding_conversion_def FunctionCall3_output_def FunctionCall3_input_def new_local_ref_def
  JNI_newStringUTF_def JNI_callObjectMethod_def JNI_exceptionCheck_def JNI_deleteLocalRef_def
  JNI_getStringUTFChars_def JNI_releaseStringUTFChars_def appendStringInfoString_def

lemmas obs_defs = events_since_def released_def differing_def returned_conversions_def

lemma bytes_at_frame [simp]:
  "bytes_at (w\<lparr>trace := a\<rparr>) = bytes_at w"
  "bytes_at (w\<lparr>localrefs := b\<rparr>) = bytes_at w"
  "bytes_at (w\<lparr>refs_made := c\<rparr>) = bytes_at w"
  "bytes_at (w\<lparr>exception_pending := d\<rparr>) = bytes_at w"
  "bytes_at (w\<lparr>brk := e\<rparr>) = bytes_at w"
  "bytes_at (w\<lparr>stringinfos := f\<rparr>) = bytes_at w"
  by (simp_all add: bytes_at_def fun_eq_iff cong: option.case_cong chunk.case_cong if_cong)

lemma bytes_at_chunks [simp]:
  "bytes_at (w\<lparr>chunks := m\<rparr>) p =
     (case m p of
        Some (CString bs) \<Rightarrow> Some bs
      | Some (Varlena sz d) \<Rightarrow> None
      | None \<Rightarrow>
          (case utfchars w p of
             Some bs \<Rightarrow> Some bs
           | None \<Rightarrow>
               if VARHDRSZ \<le> p then
                 (case m (p - VARHDRSZ) of
                    Some (Varlena sz d) \<Rightarrow> Some d
                  | _ \<Rightarrow> None)
               else None))"
  by (simp add: bytes_at_def cong: option.case_cong chunk.case_cong if_cong)

lemma bytes_at_utfchars [simp]:
  "bytes_at (w\<lparr>utfchars := u\<rparr>) p =
     (case chunks w p of
        Some (CString bs) \<Rightarrow> Some bs
      | Some (Varlena sz d) \<Rightarrow> None
      | None \<Rightarrow>
          (case u p of
             Some bs \<Rightarrow> Some bs
           | None \<Rightarrow>
               if VARHDRSZ \<le> p then
                 (case chunks w (p - VARHDRSZ) of
                    Some (Varlena sz d) \<Rightarrow> Some d
                  | _ \<Rightarrow> None)
               else None))"
  by (simp add: bytes_at_def cong: option.case_cong chunk.case_cong if_cong)

lemma take_cstring [simp]: "take (length (cstring bs)) bs = cstring bs"
  by (induction bs) (simp_all add: cstring_def)

lemma cstring_idem [simp]: "cstring (cstring bs) = cstring bs"
  by (simp add: cstring_def)

text \<open>Quiet calls compose.\<close>

lemma quiet_refl [simp]: "quiet P w w"
  by (simp add: quiet_def)

lemma quiet_trans: "quiet P w w1 \<Longrightarrow> quiet P w1 w2 \<Longrightarrow> quiet P w w2"
  by (auto simp add: quiet_def)

lemma quiet_andthen:
  assumes "quiet P w (snd r)" and "\<And>x w1. r = (Inr x, w1) \<Longrightarrow> quiet P w1 (snd (f x w1))"
  shows "quiet P w (snd (andthen r f))"
proof (cases r)
  case (Pair a w1)
  show ?thesis
  proof (cases a)
    case (Inl e)
    with Pair assms(1) show ?thesis by (simp add: andthen_def)
  next
    case (Inr x)
    with Pair assms have "quiet P w w1" "quiet P w1 (snd (f x w1))" by auto
    then have "quiet P w (snd (f x w1))" by (rule quiet_trans)
    with Pair Inr show ?thesis by (simp add: andthen_def)
  qed
qed

lemma quiet_frame [simp]:
  "quiet P w (w'\<lparr>chunks := a\<rparr>) = quiet P w w'"
  "quiet P w (w'\<lparr>utfchars := b\<rparr>) = quiet P w w'"
  "quiet P w (w'\<lparr>localrefs := c\<rparr>) = quiet P w w'"
  "quiet P w (w'\<lparr>refs_made := d\<rparr>) = quiet P w w'"
  "quiet P w (w'\<lparr>brk := e\<rparr>) = quiet P w w'"
  "quiet P w (w'\<lparr>stringinfos := f\<rparr>) = quiet P w w'"
  "quiet P w (w'\<lparr>exception_pending := g\<rparr>) = quiet P w w'"
  by (simp_all add: quiet_def)

lemma quiet_strlen: "quiet P w (snd (strlen p w))"
  by (simp add: strlen_def raise_def ok_def split: option.splits)

lemma quiet_VARSIZE: "quiet P w (snd (VARSIZE p w))"
  by (simp add: VARSIZE_def raise_def ok_def split: option.splits chunk.splits)

lemma quiet_palloc: "\<not> P (Palloc (Suc (brk w))) \<Longrightarrow> quiet P w (snd (palloc c w))"
  by (simp add: palloc_def Let_def quiet_def emit_def)

lemma quiet_pfree: "\<not> P (Pfree p) \<Longrightarrow> quiet P w (snd (pfree p w))"
  by (simp add: pfree_def quiet_def emit_def raise_def ok_def split: option.splits)

lemma quiet_pstrdup: "\<not> P (Palloc (Suc (brk w))) \<Longrightarrow> quiet P w (snd (pstrdup p w))"
  by (simp add: pstrdup_def palloc_def Let_def quiet_def emit_def raise_def ok_def split: option.splits)

lemma quiet_conversion:
  "\<not> P (Palloc (Suc (brk w))) \<Longrightarrow> (\<And>r. \<not> P (EncodingConversion src len f t r)) \<Longrightarrow>
   quiet P w (snd (pg_do_encoding_conversion E src len f t w))"
  by (simp add: pg_do_encoding_conversion_def palloc_def Let_def quiet_def emit_def raise_def ok_def
      split: option.splits conversion.splits)

lemma quiet_newStringUTF:
  "(\<And>h. \<not> P (NewStringUTF p h)) \<Longrightarrow> quiet P w (snd (JNI_newStringUTF E p w))"
  by (simp add: JNI_newStringUTF_def new_local_ref_def Let_def quiet_def emit_def raise_def ok_def
      split: option.splits)

lemma quiet_getStringUTFChars:
  "(\<And>p. \<not> P (GetStringUTFChars h p)) \<Longrightarrow> quiet P w (snd (JNI_getStringUTFChars E h w))"
  by (simp add: JNI_getStringUTFChars_def Let_def quiet_def emit_def raise_def ok_def
      split: option.splits java_object.splits)

lemma quiet_releaseStringUTFChars:
  "\<not> P (ReleaseStringUTFChars h p) \<Longrightarrow> quiet P w (JNI_releaseStringUTFChars h p w)"
  by (simp add: JNI_releaseStringUTFChars_def quiet_def emit_def)

lemma quiet_deleteLocalRef:
  "\<not> P (DeleteLocalRef h) \<Longrightarrow> quiet P w (JNI_deleteLocalRef h w)"
  by (simp add: JNI_deleteLocalRef_def quiet_def emit_def)

lemma quiet_input:
  "\<not> P (FunctionCall3 fi a b c) \<Longrightarrow> quiet P w (snd (FunctionCall3_input E fi a b c w))"
  by (simp add: FunctionCall3_input_def Let_def quiet_def emit_def raise_def ok_def
      split: option.splits)

lemma quiet_appendStringInfoString: "quiet P w (snd (appendStringInfoString buf s w))"
  by (simp add: appendStringInfoString_def raise_def ok_def split: option.splits)

lemma quiet_ok [simp]: "quiet P w (snd (ok x w')) = quiet P w w'"
  by (simp add: ok_def)

lemmas quiet_intros = quiet_andthen quiet_strlen quiet_VARSIZE quiet_palloc quiet_pfree quiet_pstrdup
  quiet_conversion quiet_newStringUTF quiet_getStringUTFChars quiet_releaseStringUTFChars
  quiet_deleteLocalRef quiet_input quiet_appendStringInfoString

lemma quiet_createNTS:
  assumes "\<And>p. \<not> P (Palloc p)" "\<And>a b c d e. \<not> P (EncodingConversion a b c d e)"
    "\<And>h p. \<not> P (GetStringUTFChars h p)" "\<And>h p. \<not> P (ReleaseStringUTFChars h p)"
  shows "quiet P w (snd (String_createNTS E h w))"
  unfolding String_createNTS_def
  by (auto intro!: quiet_intros simp add: assms)

lemma quiet_createJavaStringFromNTS:
  assumes "\<And>p. \<not> P (Palloc p)" "\<And>a b c d e. \<not> P (EncodingConversion a b c d e)"
    "\<And>h p. \<not> P (NewStringUTF p h)" "\<And>p. \<not> P (Pfree p)"
  shows "quiet P w (snd (String_createJavaStringFromNTS E cp w))"
  unfolding String_createJavaStringFromNTS_def
  by (auto intro!: quiet_intros simp add: assms)

lemma quiet_input_after_delete:
  assumes "\<not> P (DeleteLocalRef h)" and "\<not> P (FunctionCall3 fi a b c)"
  shows "quiet P w (snd (FunctionCall3_input E fi a b c (JNI_deleteLocalRef h w)))"
proof -
  have "quiet P w (JNI_deleteLocalRef h w)"
    using assms(1) by (rule quiet_deleteLocalRef)
  moreover have "quiet P (JNI_deleteLocalRef h w)
      (snd (FunctionCall3_input E fi a b c (JNI_deleteLocalRef h w)))"
    using assms(2) by (rule quiet_input)
  ultimately show ?thesis by (rule quiet_trans)
qed

text \<open>Events of consecutive calls.\<close>

lemma released_append [simp]: "released (a @ b) = released a @ released b"
  by (simp add: released_def)

lemma returned_conversions_append [simp]:
  "returned_conversions (a @ b) = returned_conversions a @ returned_conversions b"
  by (simp add: returned_conversions_def)

lemma differing_simps [simp]:
  "differing [] = []"
  "differing (a @ b) = differing a @ differing b"
  by (simp_all add: differing_def)

lemma events_since_trans:
  assumes "trace w1 = trace w @ evs" and "quiet P w1 w2"
  shows "events_since w w2 = evs @ events_since w1 w2"
  using assms by (auto simp add: quiet_def events_since_def)

lemma filter_events_trans:
  assumes "trace w1 = trace w @ evs" and "quiet P w1 w2"
  shows "filter P (events_since w w2) = filter P evs"
  using assms by (auto simp add: quiet_def events_since_def)

lemma filter_events_after:
  assumes "trace w1 = trace w @ [e]" and "P e" and "quiet P w1 w2"
  shows "filter P (events_since w w2) = [e]"
  using assms by (auto simp add: quiet_def events_since_def)

lemma disciplined_refl [simp]: "disciplined w w"
  by (simp add: disciplined_def obs_defs)

lemma disciplined_after:
  assumes "trace w1 = trace w @ evs" and "released evs = []" and "returned_conversions evs = []"
    and "quiet (\<lambda>e. False) w1 w2" and "disciplined w1 w2"
  shows "disciplined w w2"
  using assms(2,3,5) events_since_trans [OF assms(1) assms(4)]
  by (simp add: disciplined_def)

text \<open>Reads and calls whose outcome is known.\<close>

lemma heap_ok_next: "heap_ok w \<Longrightarrow> chunks w (Suc (brk w)) = None"
  by (simp add: heap_ok_def)

lemma bytes_at_CString: "chunks w p = Some (CString bs) \<Longrightarrow> bytes_at w p = Some bs"
  by (simp add: bytes_at_def)

lemma cstring_no_nul: "0 \<notin> set bs \<Longrightarrow> cstring bs = bs"
  by (induction bs) (auto simp add: cstring_def)

lemma getStringUTFChars_cases:
  obtains "JNI_getStringUTFChars E js w = (Inl Fault, w)"
  | utf8 w1 where "JNI_getStringUTFChars E js w = (Inr utf8, w1)"
      and "trace w1 = trace w @ [GetStringUTFChars js utf8]"
proof (cases "localrefs w js")
  case None
  then have "JNI_getStringUTFChars E js w = (Inl Fault, w)"
    by (simp add: JNI_getStringUTFChars_def raise_def)
  then show ?thesis by (rule that(1))
next
  case (Some obj)
  show ?thesis
  proof (cases obj)
    case (JavaString cs)
    with Some have
      "JNI_getStringUTFChars E js w =
         (Inr (Suc (brk w)), emit (GetStringUTFChars js (Suc (brk w)))
            (w\<lparr>utfchars := (utfchars w)(Suc (brk w) \<mapsto> utf_encode E cs),
               brk := Suc (brk w) + length (utf_encode E cs) + 1\<rparr>))"
      by (simp add: JNI_getStringUTFChars_def ok_def Let_def)
    then show ?thesis by (rule that(2)) (simp add: emit_def)
  next
    case (JavaObject x)
    with Some have "JNI_getStringUTFChars E js w = (Inl Fault, w)"
      by (simp add: JNI_getStringUTFChars_def raise_def)
    then show ?thesis by (rule that(1))
  qed
qed

lemma callObjectMethod_trace:
  "trace (snd (JNI_callObjectMethod h m w)) = trace w @ [CallObjectMethod h m]"
  by (simp add: JNI_callObjectMethod_def new_local_ref_def Let_def emit_def raise_def ok_def
      split: option.splits java_object.splits toString_outcome.splits)

lemma callObjectMethod_string:
  assumes "stringified (localrefs w jstr) = Some cs"
  shows "JNI_callObjectMethod jstr s_Object_toString w =
           (Inr (Suc (refs_made w)),
            w\<lparr>localrefs := (localrefs w)(Suc (refs_made w) \<mapsto> JavaString cs),
              refs_made := Suc (refs_made w),
              trace := trace w @ [CallObjectMethod jstr s_Object_toString]\<rparr>)"
proof (cases "localrefs w jstr")
  case None
  with assms show ?thesis by simp
next
  case (Some obj)
  show ?thesis
  proof (cases obj)
    case (JavaString x)
    with Some assms show ?thesis
      by (simp add: JNI_callObjectMethod_def new_local_ref_def emit_def ok_def Let_def)
  next
    case (JavaObject out)
    with Some assms show ?thesis
      by (cases out) (simp_all add: JNI_callObjectMethod_def new_local_ref_def emit_def ok_def Let_def)
  qed
qed

lemma output_trace:
  "trace (snd (FunctionCall3_output E fo a b c w)) =
     trace w @ FunctionCall3 fo a b c #
       (case output_routine E (fn_oid fo) a b c of None \<Rightarrow> [] | Some bs \<Rightarrow> [Palloc (Suc (brk w))])"
  by (simp add: FunctionCall3_output_def palloc_def Let_def emit_def raise_def ok_def
      split: option.splits)

lemmas step_defs = andthen_def ok_def raise_def emit_def palloc_def pfree_def strlen_def pstrdup_def
  pg_do_encoding_conversion_def JNI_releaseStringUTFChars_def appendStringInfoString_def

lemmas demo_defs = demo_env_def demo_env_utf8_def fresh_world_def text_descriptor_def
  int4_descriptor_def holding_def with_cstring_def hello_def hello_utf16_def hello_acute_latin1_def
  hello_acute_utf8_def hello_acute_utf16_def latin1_to_utf8_def utf16_to_utf8_def cstring_def

lemmas fn_defs = String_coerceObject_def String_coerceDatum_def String_createNTS_def
  String_createJavaStringFromNTS_def String_createJavaString_def String_createText_def
  String_appendJavaString_def DatumGetCString_def CStringGetDatum_def

section \<open>Facts about the functions of String.c\<close>

text \<open>The four helpers that compare before they release.\<close>

lemma createJavaStringFromNTS_discipline:
  assumes "\<not> faulted (String_createJavaStringFromNTS E cp w)"
  shows "disciplined w (snd (String_createJavaStringFromNTS E cp w))"
proof (cases "cp = 0")
  case True
  then show ?thesis by (simp add: String_createJavaStringFromNTS_def ok_def obs_defs disciplined_def)
next
  case nz: False
  show ?thesis
  proof (cases "bytes_at w cp")
    case None
    then show ?thesis using nz by (simp add: String_createJavaStringFromNTS_def prim_defs obs_defs disciplined_def)
  next
    case (Some bs)
    show ?thesis
    proof (cases "encoding_conversion E (GetDatabaseEncoding E) PG_UTF8 (cstring bs)")
      case NoConversion
      then show ?thesis using nz Some by (simp add: String_createJavaStringFromNTS_def prim_defs obs_defs disciplined_def)
    next
      case (Converted out)
      then show ?thesis using nz Some by (simp add: String_createJavaStringFromNTS_def prim_defs obs_defs disciplined_def)
    next
      case ConversionFails
      then show ?thesis using nz Some by (simp add: String_createJavaStringFromNTS_def prim_defs obs_defs disciplined_def)
    qed
  qed
qed

lemma createJavaString_discipline:
  assumes "\<not> faulted (String_createJavaString E t w)"
  shows "disciplined w (snd (String_createJavaString E t w))"
proof (cases "t = 0")
  case True
  then show ?thesis by (simp add: String_createJavaString_def ok_def obs_defs disciplined_def)
next
  case nz: False
  show ?thesis
  proof (cases "VARSIZE t w")
    case (Pair v w1)
    then have w1: "w1 = w" by (auto simp add: VARSIZE_def ok_def raise_def split: option.splits chunk.splits)
    show ?thesis
    proof (cases v)
      case (Inl e)
      then show ?thesis using nz Pair w1 by (simp add: String_createJavaString_def andthen_def obs_defs disciplined_def Let_def)
    next
      case (Inr sz)
      show ?thesis
      proof (cases "sz - int VARHDRSZ = 0")
        case True
        then show ?thesis using nz Pair w1 Inr by (simp add: String_createJavaString_def andthen_def ok_def obs_defs disciplined_def Let_def)
      next
        case len: False
        show ?thesis
        proof (cases "bytes_at w (VARDATA t)")
          case None
          then show ?thesis using nz Pair w1 Inr len
            by (simp add: String_createJavaString_def andthen_def ok_def raise_def pg_do_encoding_conversion_def obs_defs disciplined_def Let_def)
        next
          case (Some bs)
          show ?thesis
          proof (cases "encoding_conversion E (GetDatabaseEncoding E) PG_UTF8 (take (nat (sz - int VARHDRSZ)) bs)")
            case NoConversion
            then show ?thesis using nz Pair w1 Inr len Some
              by (simp add: String_createJavaString_def andthen_def ok_def raise_def emit_def pg_do_encoding_conversion_def
                    JNI_newStringUTF_def new_local_ref_def obs_defs disciplined_def Let_def)
          next
            case (Converted out)
            then show ?thesis using nz Pair w1 Inr len Some
              by (simp add: String_createJavaString_def andthen_def ok_def raise_def emit_def pg_do_encoding_conversion_def
                    JNI_newStringUTF_def new_local_ref_def palloc_def pfree_def obs_defs disciplined_def Let_def)
          next
            case ConversionFails
            then show ?thesis using nz Pair w1 Inr len Some
              by (simp add: String_createJavaString_def andthen_def ok_def raise_def emit_def pg_do_encoding_conversion_def
                    obs_defs disciplined_def Let_def)
          qed
        qed
      qed
    qed
  qed
qed

lemma createText_step:
  assumes "js \<noteq> 0" and "JNI_getStringUTFChars E js w = (Inr utf8, w1)"
    and "bytes_at w1 utf8 = Some bs"
  shows "disciplined w1 (snd (String_createText E js w)) \<and>
         quiet (\<lambda>e. False) w1 (snd (String_createText E js w))"
proof (cases "encoding_conversion E PG_UTF8 (GetDatabaseEncoding E) (cstring bs)")
  case NoConversion
  with assms show ?thesis
    by (simp add: String_createText_def step_defs obs_defs disciplined_def quiet_def Let_def)
next
  case (Converted out)
  with assms show ?thesis
    by (simp add: String_createText_def step_defs obs_defs disciplined_def quiet_def Let_def chunk_size_def)
next
  case ConversionFails
  with assms show ?thesis
    by (simp add: String_createText_def step_defs obs_defs disciplined_def quiet_def Let_def)
qed

lemma createText_discipline:
  "disciplined w (snd (String_createText E js w))"
proof (cases "js = 0")
  case True
  then show ?thesis by (simp add: String_createText_def ok_def)
next
  case nz: False
  show ?thesis
  proof (cases rule: getStringUTFChars_cases [of E js w])
    case 1
    with nz show ?thesis by (simp add: String_createText_def andthen_def)
  next
    case (2 utf8 w1)
    note g = this
    show ?thesis
    proof (cases "bytes_at w1 utf8")
      case None
      with g nz have "snd (String_createText E js w) = w1"
        by (simp add: String_createText_def andthen_def strlen_def raise_def)
      with g(2) show ?thesis by (simp add: disciplined_def obs_defs)
    next
      case (Some bs)
      from createText_step [OF nz g(1) Some]
      show ?thesis
        by (auto intro: disciplined_after [OF g(2)] simp add: released_def returned_conversions_def)
    qed
  qed
qed

lemma appendJavaString_step:
  assumes "js \<noteq> 0" and "JNI_getStringUTFChars E js w = (Inr utf8, w1)"
    and "bytes_at w1 utf8 = Some bs" and "\<not> faulted (String_appendJavaString E buf js w)"
  shows "disciplined w1 (snd (String_appendJavaString E buf js w)) \<and>
         quiet (\<lambda>e. False) w1 (snd (String_appendJavaString E buf js w))"
proof (cases "encoding_conversion E PG_UTF8 (GetDatabaseEncoding E) (cstring bs)")
  case NoConversion
  with assms show ?thesis
    by (cases "stringinfos w1 buf")
       (simp_all add: String_appendJavaString_def step_defs obs_defs disciplined_def quiet_def Let_def faulted_def)
next
  case (Converted out)
  with assms show ?thesis
    by (cases "stringinfos w1 buf")
       (simp_all add: String_appendJavaString_def step_defs obs_defs disciplined_def quiet_def Let_def
          chunk_size_def faulted_def)
next
  case ConversionFails
  with assms show ?thesis
    by (simp add: String_appendJavaString_def step_defs obs_defs disciplined_def quiet_def Let_def)
qed

lemma appendJavaString_discipline:
  assumes nf: "\<not> faulted (String_appendJavaString E buf js w)"
  shows "disciplined w (snd (String_appendJavaString E buf js w))"
proof (cases "js = 0")
  case True
  then show ?thesis by (simp add: String_appendJavaString_def ok_def)
next
  case nz: False
  show ?thesis
  proof (cases rule: getStringUTFChars_cases [of E js w])
    case 1
    with nz show ?thesis by (simp add: String_appendJavaString_def andthen_def)
  next
    case (2 utf8 w1)
    note g = this
    show ?thesis
    proof (cases "bytes_at w1 utf8")
      case None
      with g nz have "snd (String_appendJavaString E buf js w) = w1"
        by (simp add: String_appendJavaString_def andthen_def strlen_def raise_def)
      with g(2) show ?thesis by (simp add: disciplined_def obs_defs)
    next
      case (Some bs)
      from appendJavaString_step [OF nz g(1) Some nf]
      show ?thesis
        by (auto intro: disciplined_after [OF g(2)] simp add: released_def returned_conversions_def)
    qed
  qed
qed

text \<open>\<^verbatim>\<open>String_createNTS\<close> and \<^verbatim>\<open>_String_coerceObject\<close> on a handle that yields a string.\<close>

lemma createNTS_eval:
  assumes nz: "h \<noteq> 0" and str: "localrefs w h = Some (JavaString cs)" and ok: "heap_ok w"
    and tr: "transcoded E PG_UTF8 (GetDatabaseEncoding E) (cstring (utf_encode E cs)) = Some v"
  defines "r \<equiv> Suc (Suc (Suc (brk w + length (utf_encode E cs))))"
  shows "fst (String_createNTS E h w) = Inr r"
    and "chunks (snd (String_createNTS E h w)) = (chunks w)(r \<mapsto> CString v)"
    and "utfchars (snd (String_createNTS E h w)) = (utfchars w)(Suc (brk w) := None)"
    and "localrefs (snd (String_createNTS E h w)) = localrefs w"
    and "exception_pending (snd (String_createNTS E h w)) = exception_pending w"
    and "released (events_since w (snd (String_createNTS E h w))) = []"
    and "Palloc r \<in> set (events_since w (snd (String_createNTS E h w)))"
    and "GetStringUTFChars h (Suc (brk w)) \<in> set (events_since w (snd (String_createNTS E h w)))"
proof -
  note nx = heap_ok_next [OF ok]
  have "fst (String_createNTS E h w) = Inr r \<and>
    chunks (snd (String_createNTS E h w)) = (chunks w)(r \<mapsto> CString v) \<and>
    utfchars (snd (String_createNTS E h w)) = (utfchars w)(Suc (brk w) := None) \<and>
    localrefs (snd (String_createNTS E h w)) = localrefs w \<and>
    exception_pending (snd (String_createNTS E h w)) = exception_pending w \<and>
    released (events_since w (snd (String_createNTS E h w))) = [] \<and>
    Palloc r \<in> set (events_since w (snd (String_createNTS E h w))) \<and>
    GetStringUTFChars h (Suc (brk w)) \<in> set (events_since w (snd (String_createNTS E h w)))"
  proof (cases "encoding_conversion E PG_UTF8 (GetDatabaseEncoding E) (cstring (utf_encode E cs))")
    case NoConversion
    with tr have "v = cstring (utf_encode E cs)" by (simp add: transcoded_def)
    with NoConversion nz str nx show ?thesis
      by (simp add: String_createNTS_def prim_defs Let_def r_def events_since_def released_def chunk_size_def)
  next
    case (Converted out)
    with tr have "v = out" by (simp add: transcoded_def)
    with Converted nz str nx show ?thesis
      by (simp add: String_createNTS_def prim_defs Let_def r_def events_since_def released_def chunk_size_def)
  next
    case ConversionFails
    with tr show ?thesis by (simp add: transcoded_def)
  qed
  then show "fst (String_createNTS E h w) = Inr r"
    and "chunks (snd (String_createNTS E h w)) = (chunks w)(r \<mapsto> CString v)"
    and "utfchars (snd (String_createNTS E h w)) = (utfchars w)(Suc (brk w) := None)"
    and "localrefs (snd (String_createNTS E h w)) = localrefs w"
    and "exception_pending (snd (String_createNTS E h w)) = exception_pending w"
    and "released (events_since w (snd (String_createNTS E h w))) = []"
    and "Palloc r \<in> set (events_since w (snd (String_createNTS E h w)))"
    and "GetStringUTFChars h (Suc (brk w)) \<in> set (events_since w (snd (String_createNTS E h w)))"
    by simp_all
qed

lemma coerceObject_eval:
  assumes nz: "jstr \<noteq> 0" and str: "stringified (localrefs w jstr) = Some cs"
    and ok: "heap_ok w" and np: "\<not> exception_pending w"
    and tr: "transcoded E PG_UTF8 (GetDatabaseEncoding E) (cstring (utf_encode E cs)) = Some v"
  defines "r \<equiv> Suc (Suc (Suc (brk w + length (utf_encode E cs))))"
  shows "fst (String_coerceObject E self jstr w) =
           (case input_routine E (fn_oid (textInput self)) (cstring v) (elementType self) (- 1) of
              None \<Rightarrow> Inl ConversionRoutineFailure
            | Some d \<Rightarrow> Inr d)"
    and "input_routine E (fn_oid (textInput self)) (cstring v) (elementType self) (- 1) \<noteq> None \<Longrightarrow>
           released (events_since w (snd (String_coerceObject E self jstr w))) = [r]"
proof -
  define h2 where "h2 = Suc (refs_made w)"
  define w1 where "w1 = w\<lparr>localrefs := (localrefs w)(h2 \<mapsto> JavaString cs), refs_made := h2,
              trace := trace w @ [CallObjectMethod jstr s_Object_toString]\<rparr>"
  define w2 where "w2 = snd (String_createNTS E h2 w1)"
  have c: "JNI_callObjectMethod jstr s_Object_toString w = (Inr h2, w1)"
    using callObjectMethod_string [OF str] by (simp add: h2_def w1_def)
  have w1: "h2 \<noteq> 0" "localrefs w1 h2 = Some (JavaString cs)" "heap_ok w1" "\<not> exception_pending w1"
    "brk w1 = brk w" "trace w1 = trace w @ [CallObjectMethod jstr s_Object_toString]"
    using ok np by (simp_all add: h2_def w1_def heap_ok_def)
  note ev = createNTS_eval [OF w1(1) w1(2) w1(3) tr, folded w2_def, unfolded w1(5), folded r_def]
  have n: "String_createNTS E h2 w1 = (Inr r, w2)"
    using ev(1) by (simp add: w2_def prod_eq_iff)
  have q: "quiet (\<lambda>e. False) w1 w2"
    unfolding w2_def by (rule quiet_createNTS) simp_all
  have b: "bytes_at w2 r = Some v"
    by (rule bytes_at_CString) (simp add: ev(2))
  have pend: "\<not> exception_pending w2" using ev(5) w1(4) by simp
  show "fst (String_coerceObject E self jstr w) =
           (case input_routine E (fn_oid (textInput self)) (cstring v) (elementType self) (- 1) of
              None \<Rightarrow> Inl ConversionRoutineFailure
            | Some d \<Rightarrow> Inr d)"
    using nz c n b w1(4) ev(2)
    by (simp add: String_coerceObject_def andthen_def JNI_exceptionCheck_def JNI_deleteLocalRef_def
          FunctionCall3_input_def CStringGetDatum_def emit_def raise_def ok_def pfree_def Let_def
          split: option.splits)
  assume "input_routine E (fn_oid (textInput self)) (cstring v) (elementType self) (- 1) \<noteq> None"
  then obtain d where d: "input_routine E (fn_oid (textInput self)) (cstring v) (elementType self) (- 1) = Some d"
    by blast
  have "trace (snd (String_coerceObject E self jstr w)) =
          trace w2 @ [DeleteLocalRef h2,
                      FunctionCall3 (textInput self) r (elementType self) (- 1), Pfree r]"
    using nz c n b w1(4) ev(2) d
    by (simp add: String_coerceObject_def andthen_def JNI_exceptionCheck_def JNI_deleteLocalRef_def
          FunctionCall3_input_def CStringGetDatum_def emit_def raise_def ok_def pfree_def Let_def)
  moreover obtain evs where "trace w2 = trace w1 @ evs" "released evs = []"
    using q ev(6) by (auto simp add: quiet_def events_since_def)
  ultimately show "released (events_since w (snd (String_coerceObject E self jstr w))) = [r]"
    using w1(6) by (simp add: events_since_def released_def)
qed

text \<open>\<^verbatim>\<open>_String_coerceDatum\<close>.\<close>

lemma coerceDatum_routine_calls:
  "filter is_routine_call (events_since w (snd (String_coerceDatum E self arg w))) =
     [FunctionCall3 (textOutput self) arg (elementType self) (- 1)]"
proof -
  let ?out = "FunctionCall3_output E (textOutput self) arg (elementType self) (- 1) w"
  have q: "quiet is_routine_call (snd ?out) (snd (String_coerceDatum E self arg w))"
  proof (cases ?out)
    case (Pair r w1)
    show ?thesis
    proof (cases r)
      case (Inl e)
      with Pair show ?thesis by (simp add: String_coerceDatum_def andthen_def)
    next
      case (Inr d)
      have "quiet is_routine_call w1
             (snd (andthen (String_createJavaStringFromNTS E (DatumGetCString d) w1) (\<lambda>result w.
                     andthen (pfree (DatumGetCString d) w) (\<lambda>_ w. ok result w))))"
        by (auto intro!: quiet_andthen quiet_createJavaStringFromNTS quiet_pfree)
      with Pair Inr show ?thesis by (simp add: String_coerceDatum_def andthen_def Let_def)
    qed
  qed
  show ?thesis
    using filter_events_trans [OF output_trace q]
    by (simp split: option.splits)
qed

lemma coerceDatum_eval:
  assumes out: "output_routine E (fn_oid (textOutput self)) arg (elementType self) (- 1) = Some bs"
    and tr: "transcoded E (GetDatabaseEncoding E) PG_UTF8 (cstring bs) = Some u"
  shows "fst (String_coerceDatum E self arg w) = Inr (Suc (refs_made w))"
    and "localrefs (snd (String_coerceDatum E self arg w)) (Suc (refs_made w)) =
           Some (JavaString (utf_decode E (cstring u)))"
    and "exception_pending (snd (String_coerceDatum E self arg w)) = exception_pending w"
    and "heap_ok w \<Longrightarrow> heap_ok (snd (String_coerceDatum E self arg w))"
proof -
  have "fst (String_coerceDatum E self arg w) = Inr (Suc (refs_made w)) \<and>
        localrefs (snd (String_coerceDatum E self arg w)) (Suc (refs_made w)) =
           Some (JavaString (utf_decode E (cstring u))) \<and>
        exception_pending (snd (String_coerceDatum E self arg w)) = exception_pending w \<and>
        (heap_ok w \<longrightarrow> heap_ok (snd (String_coerceDatum E self arg w)))"
  proof (cases "encoding_conversion E (GetDatabaseEncoding E) PG_UTF8 (cstring bs)")
    case NoConversion
    with tr have "u = cstring bs" by (simp add: transcoded_def)
    with NoConversion out show ?thesis
      by (simp add: String_coerceDatum_def String_createJavaStringFromNTS_def DatumGetCString_def
          prim_defs Let_def heap_ok_def chunk_size_def)
  next
    case (Converted x)
    with tr have "u = x" by (simp add: transcoded_def)
    with Converted out show ?thesis
      by (simp add: String_coerceDatum_def String_createJavaStringFromNTS_def DatumGetCString_def
          prim_defs Let_def heap_ok_def chunk_size_def)
  next
    case ConversionFails
    with tr show ?thesis by (simp add: transcoded_def)
  qed
  then show "fst (String_coerceDatum E self arg w) = Inr (Suc (refs_made w))"
    and "localrefs (snd (String_coerceDatum E self arg w)) (Suc (refs_made w)) =
           Some (JavaString (utf_decode E (cstring u)))"
    and "exception_pending (snd (String_coerceDatum E self arg w)) = exception_pending w"
    and "heap_ok w \<Longrightarrow> heap_ok (snd (String_coerceDatum E self arg w))"
    by simp_all
qed

text \<open>The concrete database and VM satisfy the conditions of a round trip.\<close>

lemma demo_facts:
  "heap_ok fresh_world" "\<not> exception_pending fresh_world"
  "output_routine demo_env (fn_oid (textOutput text_descriptor)) 2 (elementType text_descriptor) (- 1) = Some hello_acute_latin1"
  "0 \<notin> set hello_acute_latin1"
  "transcoded demo_env (GetDatabaseEncoding demo_env) PG_UTF8 hello_acute_latin1 = Some hello_acute_utf8"
  "0 \<notin> set hello_acute_utf8"
  "utf_encode demo_env (utf_decode demo_env hello_acute_utf8) = hello_acute_utf8"
  "transcoded demo_env PG_UTF8 (GetDatabaseEncoding demo_env) hello_acute_utf8 = Some hello_acute_latin1"
  "input_routine demo_env (fn_oid (textInput text_descriptor)) hello_acute_latin1 (elementType text_descriptor) (- 1) = Some 2"
  by (simp_all add: demo_defs heap_ok_def transcoded_def)

lemma demo_utf8_facts:
  "output_routine demo_env_utf8 (fn_oid (textOutput text_descriptor)) 1 (elementType text_descriptor) (- 1) = Some hello"
  "0 \<notin> set hello"
  "transcoded demo_env_utf8 (GetDatabaseEncoding demo_env_utf8) PG_UTF8 hello = Some hello"
  "utf_encode demo_env_utf8 (utf_decode demo_env_utf8 hello) = hello"
  "transcoded demo_env_utf8 PG_UTF8 (GetDatabaseEncoding demo_env_utf8) hello = Some hello"
  "input_routine demo_env_utf8 (fn_oid (textInput text_descriptor)) hello (elementType text_descriptor) (- 1) = Some 1"
  by (simp_all add: demo_defs heap_ok_def transcoded_def)

text \<open>After \<^verbatim>\<open>toString()\<close>, \<^verbatim>\<open>_String_coerceObject\<close> makes no further call of a method.\<close>

lemma quiet_coerceObject_rest:
  shows "quiet is_stringify w1
           (snd (andthen (String_createNTS E h w1) (\<lambda>tmp w.
              let w = JNI_deleteLocalRef h w
              in andthen (FunctionCall3_input E (textInput self) (CStringGetDatum tmp)
                            (elementType self) (- 1) w) (\<lambda>ret w.
                 andthen (pfree tmp w) (\<lambda>_ w. ok ret w)))))"
  by (auto intro!: quiet_andthen quiet_createNTS quiet_input_after_delete quiet_pfree
            simp add: Let_def)

text \<open>\<^verbatim>\<open>String_createJavaString\<close> on a \<^verbatim>\<open>text\<close> without data: the test of \<open>srcLen\<close> returns 0
  before anything is called.\<close>

lemma createJavaString_zero_length:
  assumes "t \<noteq> 0" and "chunks w t = Some (Varlena (int VARHDRSZ) d)"
  shows "String_createJavaString E t w = (Inr 0, w)"
  using assms by (simp add: String_createJavaString_def VARSIZE_def andthen_def ok_def)

text \<open>The cache: a hit changes nothing, and no request removes or replaces an entry.\<close>

lemma StringClass_obtain_hit:
  assumes "s_cache w t = Some p" and "p \<noteq> 0"
  shows "StringClass_obtain E cls t w = (Inr p, w)"
  using assms by (simp add: StringClass_obtain_def HashMap_getByOid_def ok_def)

lemma String_fromPgType_hit:
  assumes "s_cache w t = Some p" and "p \<noteq> 0"
  shows "String_fromPgType t pg w = (p, w)"
  using assms by (simp add: String_fromPgType_def HashMap_getByOid_def)

lemma StringClass_obtain_keeps:
  assumes "s_cache w t = Some p" and "p \<noteq> 0"
  shows "s_cache (snd (StringClass_obtain E cls t' w)) t = Some p"
proof (cases "t' = t")
  case True
  with assms show ?thesis by (simp add: StringClass_obtain_hit)
next
  case False
  then show ?thesis using assms
    by (simp add: StringClass_obtain_def PgObject_getValidTuple_def String_create_def
          TypeClass_allocInstance_def HashMap_putByOid_def andthen_def ok_def raise_def emit_def Let_def
          split: option.splits)
qed

lemma String_fromPgType_keeps:
  assumes "s_cache w t = Some p" and "p \<noteq> 0"
  shows "s_cache (snd (String_fromPgType t' pg w)) t = Some p"
proof (cases "t' = t")
  case True
  with assms show ?thesis by (simp add: String_fromPgType_hit)
next
  case False
  then show ?thesis using assms
    by (simp add: String_fromPgType_def String_create_def
          TypeClass_allocInstance_def HashMap_putByOid_def Let_def)
qed

lemma serve_keeps:
  assumes "s_cache w t = Some p" and "p \<noteq> 0"
  shows "s_cache (serve E r w) t = Some p"
  using assms
  by (cases r)
     (simp_all add: String_obtain_def StringClass_obtain_keeps String_fromPgType_keeps
        Type_registerPgType_def Type_registerJavaType_def)

lemma serve_all_keeps:
  assumes "s_cache w t = Some p" and "p \<noteq> 0"
  shows "s_cache (serve_all E rs w) t = Some p"
  using assms by (induction rs arbitrary: w) (simp_all add: serve_keeps)

lemma StringClass_obtain_miss:
  assumes "HashMap_getByOid (s_cache w) t = 0" and "syscache E t = Some row"
  shows "fst (StringClass_obtain E cls t w) = Inr (Suc (brk w))"
    and "s_cache (snd (StringClass_obtain E cls t w)) t = Some (Suc (brk w))"
    and "instances (snd (StringClass_obtain E cls t w)) (Suc (brk w)) =
           Some \<lparr>m_class = cls, m_oid = t, textOutput = fmgr_info_cxt (typoutput row),
                 textInput = fmgr_info_cxt (typinput row), elementType = typelem row\<rparr>"
    and "events_since w (snd (StringClass_obtain E cls t w)) = [GetValidTuple t, ReleaseSysCache t]"
  using assms
  by (simp_all add: StringClass_obtain_def PgObject_getValidTuple_def String_create_def
        TypeClass_allocInstance_def HashMap_putByOid_def andthen_def ok_def emit_def Let_def
        events_since_def)

lemma String_fromPgType_miss:
  assumes "HashMap_getByOid (s_cache w) t = 0"
  shows "fst (String_fromPgType t pg w) = Suc (brk w)"
    and "s_cache (snd (String_fromPgType t pg w)) t = Some (Suc (brk w))"
    and "instances (snd (String_fromPgType t pg w)) (Suc (brk w)) =
           Some \<lparr>m_class = s_StringClass w, m_oid = t, textOutput = fmgr_info_cxt (typoutput pg),
                 textInput = fmgr_info_cxt (typinput pg), elementType = typelem pg\<rparr>"
    and "events_since w (snd (String_fromPgType t pg w)) = []"
  using assms
  by (simp_all add: String_fromPgType_def String_create_def
        TypeClass_allocInstance_def HashMap_putByOid_def Let_def events_since_def)

text \<open>Facts about the concrete database and VM.\<close>

lemma demo_cache_facts:
  "HashMap_getByOid (s_cache fresh_world) 25 = 0"
  "syscache demo_env 25 = Some \<lparr>typoutput = 47, typinput = 46, typelem = 0\<rparr>"
  by (simp_all add: demo_defs HashMap_getByOid_def)

lemma demo_helper_runs:
  "\<not> fst (run_helper demo_env (CreateJavaStringFromNTS 1) (with_cstring hello_acute_latin1))"
  "returned_conversions
     (events_since (with_cstring hello_acute_latin1)
        (snd (run_helper demo_env (CreateJavaStringFromNTS 1) (with_cstring hello_acute_latin1)))) =
     [(1, 8)]"
  "\<not> fst (run_helper demo_env_utf8 (CreateJavaStringFromNTS 1) (with_cstring hello))"
  "returned_conversions
     (events_since (with_cstring hello)
        (snd (run_helper demo_env_utf8 (CreateJavaStringFromNTS 1) (with_cstring hello)))) =
     [(1, 1)]"
  by (simp_all add: fn_defs prim_defs demo_defs events_since_def bytes_at_def chunk_size_def Let_def
        faulted_def returned_conversions_def)

lemma demo_string_facts:
  "(1::nat) \<noteq> 0"
  "localrefs (holding (JavaString hello_utf16)) 1 = Some (JavaString hello_utf16)"
  "heap_ok (holding (JavaString hello_utf16))"
  "transcoded demo_env_utf8 PG_UTF8 (GetDatabaseEncoding demo_env_utf8)
     (cstring (utf_encode demo_env_utf8 hello_utf16)) = Some hello"
  "\<not> exception_pending (holding (JavaString hello_utf16))"
  "input_routine demo_env_utf8 (fn_oid (textInput text_descriptor)) (cstring hello)
     (elementType text_descriptor) (- 1) = Some 1"
  by (simp_all add: demo_defs new_local_ref_def heap_ok_def transcoded_def)

text \<open>What an invocation of \<^verbatim>\<open>toString()\<close> leaves alone.\<close>

lemma callObjectMethod_memory:
  "chunks (snd (JNI_callObjectMethod h m w)) = chunks w"
  "utfchars (snd (JNI_callObjectMethod h m w)) = utfchars w"
  by (simp_all add: JNI_callObjectMethod_def new_local_ref_def Let_def emit_def raise_def ok_def
      split: option.splits java_object.splits toString_outcome.splits)

lemma callObjectMethod_throws:
  assumes "localrefs w h = Some (JavaObject Throws)"
  shows "fst (JNI_callObjectMethod h m w) = Inr 0"
    and "localrefs (snd (JNI_callObjectMethod h m w)) = localrefs w"
    and "exception_pending (snd (JNI_callObjectMethod h m w))"
  using assms by (simp_all add: JNI_callObjectMethod_def Let_def emit_def ok_def)

lemma demo_throwing_facts:
  "(1::nat) \<noteq> 0"
  "JNI_callObjectMethod 1 s_Object_toString (holding (JavaObject Throws)) =
     (Inr 0, snd (JNI_callObjectMethod 1 s_Object_toString (holding (JavaObject Throws))))"
  "JNI_exceptionCheck (snd (JNI_callObjectMethod 1 s_Object_toString (holding (JavaObject Throws))))"
  "localrefs (holding (JavaObject Throws)) 1 = Some (JavaObject Throws)"
  by (simp_all add: JNI_callObjectMethod_def JNI_exceptionCheck_def new_local_ref_def Let_def emit_def
        ok_def holding_def fresh_world_def)

section \<open>The claims\<close>

text \<open>C1. Identity caching. Let \<open>t\<close> be a type identifier that is not in the cache. The
  first resolution, by \<^verbatim>\<open>StringClass_obtain\<close> (and so by \<^verbatim>\<open>String_obtain\<close>) when the catalog
  has a row for \<open>t\<close>, or by \<^verbatim>\<open>String_fromPgType\<close> with the row it is given, constructs a
  descriptor from that row at a new, non-null address \<open>p\<close> and stores \<open>p\<close> in the cache.
  After any sequence of later requests (resolutions of any identifier by any of the three
  functions, successful or not, and registrations of any other factory for any
  identifier or class name, \<open>t\<close> included), each of \<^verbatim>\<open>String_obtain\<close>, \<^verbatim>\<open>StringClass_obtain\<close>
  and \<^verbatim>\<open>String_fromPgType\<close> returns the same \<open>p\<close> for \<open>t\<close> and leaves the state as it is:
  the catalog is not read again, and the trace gains no event.\<close>

theorem identity_caching:
  assumes fresh: "HashMap_getByOid (s_cache w) t = 0" and valid: "syscache E t = Some row"
  shows "(\<exists>p w1. StringClass_obtain E cls t w = (Inr p, w1) \<and> p \<noteq> 0 \<and>
            s_cache w1 t = Some p \<and>
            instances w1 p =
              Some \<lparr>m_class = cls, m_oid = t, textOutput = fmgr_info_cxt (typoutput row),
                    textInput = fmgr_info_cxt (typinput row), elementType = typelem row\<rparr> \<and>
            (\<forall>rs cls' pg'.
               String_obtain E t (serve_all E rs w1) = (Inr p, serve_all E rs w1) \<and>
               StringClass_obtain E cls' t (serve_all E rs w1) = (Inr p, serve_all E rs w1) \<and>
               String_fromPgType t pg' (serve_all E rs w1) = (p, serve_all E rs w1))) \<and>
         (\<exists>p w1. String_fromPgType t pg w = (p, w1) \<and> p \<noteq> 0 \<and>
            s_cache w1 t = Some p \<and>
            instances w1 p =
              Some \<lparr>m_class = s_StringClass w, m_oid = t, textOutput = fmgr_info_cxt (typoutput pg),
                    textInput = fmgr_info_cxt (typinput pg), elementType = typelem pg\<rparr> \<and>
            (\<forall>rs cls' pg'.
               String_obtain E t (serve_all E rs w1) = (Inr p, serve_all E rs w1) \<and>
               StringClass_obtain E cls' t (serve_all E rs w1) = (Inr p, serve_all E rs w1) \<and>
               String_fromPgType t pg' (serve_all E rs w1) = (p, serve_all E rs w1)))"
proof -
  let ?p = "Suc (brk w)"
  have later: "String_obtain E t (serve_all E rs w1) = (Inr ?p, serve_all E rs w1) \<and>
               StringClass_obtain E cls' t (serve_all E rs w1) = (Inr ?p, serve_all E rs w1) \<and>
               String_fromPgType t pg' (serve_all E rs w1) = (?p, serve_all E rs w1)"
    if "s_cache w1 t = Some ?p" for w1 rs cls' pg'
  proof -
    have "s_cache (serve_all E rs w1) t = Some ?p"
      using that by (rule serve_all_keeps) simp
    then show ?thesis
      by (simp add: String_obtain_def StringClass_obtain_hit String_fromPgType_hit)
  qed
  let ?a = "snd (StringClass_obtain E cls t w)"
  note m = StringClass_obtain_miss [OF fresh valid, of cls]
  have a: "StringClass_obtain E cls t w = (Inr ?p, ?a)"
    using m(1) by (simp add: prod_eq_iff)
  let ?b = "snd (String_fromPgType t pg w)"
  note n = String_fromPgType_miss [OF fresh, of pg]
  have b: "String_fromPgType t pg w = (?p, ?b)"
    using n(1) by (simp add: prod_eq_iff)
  show ?thesis
  proof (intro conjI)
    show "\<exists>p w1. StringClass_obtain E cls t w = (Inr p, w1) \<and> p \<noteq> 0 \<and>
            s_cache w1 t = Some p \<and>
            instances w1 p =
              Some \<lparr>m_class = cls, m_oid = t, textOutput = fmgr_info_cxt (typoutput row),
                    textInput = fmgr_info_cxt (typinput row), elementType = typelem row\<rparr> \<and>
            (\<forall>rs cls' pg'.
               String_obtain E t (serve_all E rs w1) = (Inr p, serve_all E rs w1) \<and>
               StringClass_obtain E cls' t (serve_all E rs w1) = (Inr p, serve_all E rs w1) \<and>
               String_fromPgType t pg' (serve_all E rs w1) = (p, serve_all E rs w1))"
      using a m(2) m(3) later [OF m(2)] by (intro exI [of _ ?p] exI [of _ ?a]) simp
    show "\<exists>p w1. String_fromPgType t pg w = (p, w1) \<and> p \<noteq> 0 \<and>
            s_cache w1 t = Some p \<and>
            instances w1 p =
              Some \<lparr>m_class = s_StringClass w, m_oid = t, textOutput = fmgr_info_cxt (typoutput pg),
                    textInput = fmgr_info_cxt (typinput pg), elementType = typelem pg\<rparr> \<and>
            (\<forall>rs cls' pg'.
               String_obtain E t (serve_all E rs w1) = (Inr p, serve_all E rs w1) \<and>
               StringClass_obtain E cls' t (serve_all E rs w1) = (Inr p, serve_all E rs w1) \<and>
               String_fromPgType t pg' (serve_all E rs w1) = (p, serve_all E rs w1))"
      using b n(2) n(3) later [OF n(2)] by (intro exI [of _ ?p] exI [of _ ?b]) simp
  qed
qed

text \<open>The witness: \<^verbatim>\<open>text\<close> (25) is resolved in the initial state; afterwards another
  factory is registered for 25, \<^verbatim>\<open>int4\<close> (23) is resolved, the resolution of 99 fails in
  the catalog, and \<^verbatim>\<open>String_fromPgType\<close> is called for 25 with the row of another type.\<close>

theorem identity_caching_witness:
  "HashMap_getByOid (s_cache fresh_world) 25 = 0 \<and>
   syscache demo_env 25 = Some \<lparr>typoutput = 47, typinput = 46, typelem = 0\<rparr> \<and>
   (\<exists>p w1. String_obtain demo_env 25 fresh_world = (Inr p, w1) \<and> p \<noteq> 0 \<and>
      s_cache w1 25 = Some p \<and>
      String_obtain demo_env 25 w1 = (Inr p, w1) \<and>
      String_obtain demo_env 25
        (serve_all demo_env
           [RegisterPgType 25 (Fn_other 7), Obtain 23, Obtain 99,
            FromPgType 25 \<lparr>typoutput = 43, typinput = 42, typelem = 0\<rparr>] w1) =
        (Inr p,
         serve_all demo_env
           [RegisterPgType 25 (Fn_other 7), Obtain 23, Obtain 99,
            FromPgType 25 \<lparr>typoutput = 43, typinput = 42, typelem = 0\<rparr>] w1) \<and>
      String_fromPgType 25 \<lparr>typoutput = 43, typinput = 42, typelem = 0\<rparr>
        (serve_all demo_env
           [RegisterPgType 25 (Fn_other 7), Obtain 23, Obtain 99,
            FromPgType 25 \<lparr>typoutput = 43, typinput = 42, typelem = 0\<rparr>] w1) =
        (p,
         serve_all demo_env
           [RegisterPgType 25 (Fn_other 7), Obtain 23, Obtain 99,
            FromPgType 25 \<lparr>typoutput = 43, typinput = 42, typelem = 0\<rparr>] w1))"
proof -
  let ?rs = "[RegisterPgType 25 (Fn_other 7), Obtain 23, Obtain 99,
            FromPgType 25 \<lparr>typoutput = 43, typinput = 42, typelem = 0\<rparr>]"
  from identity_caching [OF demo_cache_facts, of "s_StringClass fresh_world"]
  obtain p w1 where
    1: "StringClass_obtain demo_env (s_StringClass fresh_world) 25 fresh_world = (Inr p, w1)"
    and 2: "p \<noteq> 0" "s_cache w1 25 = Some p"
    and 3: "\<forall>rs cls' pg'.
               String_obtain demo_env 25 (serve_all demo_env rs w1) = (Inr p, serve_all demo_env rs w1) \<and>
               StringClass_obtain demo_env cls' 25 (serve_all demo_env rs w1) = (Inr p, serve_all demo_env rs w1) \<and>
               String_fromPgType 25 pg' (serve_all demo_env rs w1) = (p, serve_all demo_env rs w1)"
    by blast
  have a: "String_obtain demo_env 25 fresh_world = (Inr p, w1)"
    using 1 by (simp add: String_obtain_def)
  have b: "String_obtain demo_env 25 w1 = (Inr p, w1)"
    using 3 [rule_format, of "[]"] by simp
  have c: "String_obtain demo_env 25 (serve_all demo_env ?rs w1) = (Inr p, serve_all demo_env ?rs w1)"
    using 3 [rule_format, of ?rs] by blast
  have d: "String_fromPgType 25 \<lparr>typoutput = 43, typinput = 42, typelem = 0\<rparr>
        (serve_all demo_env ?rs w1) = (p, serve_all demo_env ?rs w1)"
    using 3 [rule_format, of ?rs] by blast
  from demo_cache_facts a 2 b c d show ?thesis by blast
qed

text \<open>C2. Alias-safe release discipline. For each of \<^verbatim>\<open>String_createJavaString\<close>,
  \<^verbatim>\<open>String_createJavaStringFromNTS\<close>, \<^verbatim>\<open>String_createText\<close> and \<^verbatim>\<open>String_appendJavaString\<close>,
  on every input and in every state in which the call does not crash on an invalid
  pointer or handle: the references the call passes to \<^verbatim>\<open>pfree\<close> are exactly the
  references that the conversion primitive returned to it and that differ from the
  reference it was given. So a returned buffer that differs from the input is released,
  and a returned buffer identical to the input is never released.\<close>

theorem compare_before_release:
  assumes "\<not> fst (run_helper E c w)"
  shows "released (events_since w (snd (run_helper E c w))) =
           differing (returned_conversions (events_since w (snd (run_helper E c w))))"
proof (cases c)
  case (CreateJavaString t)
  with assms createJavaString_discipline [of E t w] show ?thesis
    by (simp add: disciplined_def Let_def)
next
  case (CreateJavaStringFromNTS cp)
  with assms createJavaStringFromNTS_discipline [of E cp w] show ?thesis
    by (simp add: disciplined_def Let_def)
next
  case (CreateText js)
  with createText_discipline [of w E js] show ?thesis
    by (simp add: disciplined_def Let_def)
next
  case (AppendJavaString buf js)
  with assms appendJavaString_discipline [of E buf js w] show ?thesis
    by (simp add: disciplined_def Let_def)
qed

text \<open>The witness: in a LATIN1 database the conversion returns a new buffer, at address
  8, for the C string at address 1, and the helper releases 8; in a UTF-8 database the
  conversion returns the address 1 it was given, and the helper releases nothing.\<close>

theorem compare_before_release_witness:
  "\<not> fst (run_helper demo_env (CreateJavaStringFromNTS 1) (with_cstring hello_acute_latin1)) \<and>
   returned_conversions
     (events_since (with_cstring hello_acute_latin1)
        (snd (run_helper demo_env (CreateJavaStringFromNTS 1) (with_cstring hello_acute_latin1)))) =
     [(1, 8)] \<and>
   released
     (events_since (with_cstring hello_acute_latin1)
        (snd (run_helper demo_env (CreateJavaStringFromNTS 1) (with_cstring hello_acute_latin1)))) =
     [8] \<and>
   \<not> fst (run_helper demo_env_utf8 (CreateJavaStringFromNTS 1) (with_cstring hello)) \<and>
   returned_conversions
     (events_since (with_cstring hello)
        (snd (run_helper demo_env_utf8 (CreateJavaStringFromNTS 1) (with_cstring hello)))) =
     [(1, 1)] \<and>
   released
     (events_since (with_cstring hello)
        (snd (run_helper demo_env_utf8 (CreateJavaStringFromNTS 1) (with_cstring hello)))) =
     []"
  using demo_helper_runs
    compare_before_release [OF demo_helper_runs(1)]
    compare_before_release [OF demo_helper_runs(3)]
  by (simp add: differing_def)

text \<open>C3. Round trip: take a database value whose output routine renders a text without
  NUL bytes, representable in both encodings: the conversion to UTF-8 yields \<open>u\<close>, the VM
  gives \<open>u\<close> back for the string it made of \<open>u\<close>, and the conversion to the database
  encoding takes \<open>u\<close> back to the text (the two conversions are inverse to each other
  on it). Let the stored input routine parse the text to a value that the output routine
  renders as the same text (the routines are inverse to each other on it). Then
  \<^verbatim>\<open>coerceDatum\<close> returns a managed string, and \<^verbatim>\<open>coerceObject\<close> applied to it returns a
  native value that the output routine renders as the original text, byte for byte. The
  state is one in which no exception is pending and the allocator's next addresses are
  free.\<close>

theorem round_trip:
  assumes heap: "heap_ok w" and calm: "\<not> exception_pending w"
    and rendered: "output_routine E (fn_oid (textOutput self)) d (elementType self) (- 1) = Some bs"
    and db_text: "0 \<notin> set bs"
    and to_managed: "transcoded E (GetDatabaseEncoding E) PG_UTF8 bs = Some u"
    and managed_text: "0 \<notin> set u"
    and representable: "utf_encode E (utf_decode E u) = u"
    and to_database: "transcoded E PG_UTF8 (GetDatabaseEncoding E) u = Some bs"
    and parsed: "input_routine E (fn_oid (textInput self)) bs (elementType self) (- 1) = Some d'"
    and inverse: "output_routine E (fn_oid (textOutput self)) d' (elementType self) (- 1) = Some bs"
  shows "\<exists>h w1 d'' w2.
           String_coerceDatum E self d w = (Inr h, w1) \<and> h \<noteq> 0 \<and>
           String_coerceObject E self h w1 = (Inr d'', w2) \<and>
           output_routine E (fn_oid (textOutput self)) d'' (elementType self) (- 1) = Some bs"
proof -
  let ?h = "Suc (refs_made w)"
  let ?w1 = "snd (String_coerceDatum E self d w)"
  have bs: "cstring bs = bs" and u: "cstring u = u"
    using db_text managed_text by (simp_all add: cstring_no_nul)
  have tm: "transcoded E (GetDatabaseEncoding E) PG_UTF8 (cstring bs) = Some u"
    using to_managed by (simp add: bs)
  note cd = coerceDatum_eval [OF rendered tm, of w, unfolded u]
  have 1: "String_coerceDatum E self d w = (Inr ?h, ?w1)"
    using cd(1) by (simp add: prod_eq_iff)
  have s: "stringified (localrefs ?w1 ?h) = Some (utf_decode E u)"
    using cd(2) by simp
  have tr: "transcoded E PG_UTF8 (GetDatabaseEncoding E) (cstring (utf_encode E (utf_decode E u))) = Some bs"
    using to_database by (simp add: representable u)
  have p: "\<not> exception_pending ?w1" using cd(3) calm by simp
  have "fst (String_coerceObject E self ?h ?w1) = Inr d'"
    using coerceObject_eval(1) [OF _ s cd(4) [OF heap] p tr, of self] parsed by (simp add: bs)
  then have 2: "String_coerceObject E self ?h ?w1 = (Inr d', snd (String_coerceObject E self ?h ?w1))"
    by (simp add: prod_eq_iff)
  from 1 2 inverse show ?thesis by blast
qed

text \<open>The witness: the LATIN1 text 68 E9 6C 6C 6F (h, e-acute, l, l, o) of a LATIN1
  database, which travels as the UTF-8 bytes 68 C3 A9 6C 6C 6F, and the ASCII text
  "hello" of a UTF-8 database, where no conversion takes place.\<close>

theorem round_trip_witness:
  "heap_ok fresh_world \<and> \<not> exception_pending fresh_world \<and>
   output_routine demo_env (fn_oid (textOutput text_descriptor)) 2 (elementType text_descriptor) (- 1)
     = Some hello_acute_latin1 \<and>
   0 \<notin> set hello_acute_latin1 \<and>
   transcoded demo_env (GetDatabaseEncoding demo_env) PG_UTF8 hello_acute_latin1 = Some hello_acute_utf8 \<and>
   0 \<notin> set hello_acute_utf8 \<and>
   utf_encode demo_env (utf_decode demo_env hello_acute_utf8) = hello_acute_utf8 \<and>
   transcoded demo_env PG_UTF8 (GetDatabaseEncoding demo_env) hello_acute_utf8 = Some hello_acute_latin1 \<and>
   input_routine demo_env (fn_oid (textInput text_descriptor)) hello_acute_latin1
     (elementType text_descriptor) (- 1) = Some 2 \<and>
   (\<exists>h w1 d'' w2.
      String_coerceDatum demo_env text_descriptor 2 fresh_world = (Inr h, w1) \<and> h \<noteq> 0 \<and>
      String_coerceObject demo_env text_descriptor h w1 = (Inr d'', w2) \<and>
      output_routine demo_env (fn_oid (textOutput text_descriptor)) d'' (elementType text_descriptor) (- 1)
        = Some hello_acute_latin1) \<and>
   (\<exists>h w1 d'' w2.
      String_coerceDatum demo_env_utf8 text_descriptor 1 fresh_world = (Inr h, w1) \<and> h \<noteq> 0 \<and>
      String_coerceObject demo_env_utf8 text_descriptor h w1 = (Inr d'', w2) \<and>
      output_routine demo_env_utf8 (fn_oid (textOutput text_descriptor)) d'' (elementType text_descriptor) (- 1)
        = Some hello)"
  using demo_facts
    round_trip [OF demo_facts(1-9) demo_facts(3)]
    round_trip [OF demo_facts(1,2) demo_utf8_facts(1,2,3,2,4,5,6,1)]
  by simp

text \<open>C4, as the code has it. When the exception check that follows the invocation of
  \<^verbatim>\<open>toString()\<close> finds an exception pending, as it does when \<^verbatim>\<open>toString()\<close> threw,
  \<^verbatim>\<open>_String_coerceObject\<close> stops there: it returns 0, the value it also returns for the
  null handle, and the state is the one the invocation left. So the only event of the
  call is the invocation of \<^verbatim>\<open>toString()\<close> (neither the conversion primitive nor the
  stored input routine is invoked), nothing is allocated or released, and the exception
  is still pending in the VM; the function itself reports no failure. An invocation that
  threw returned the null handle and made no local reference, so the local references
  are what they were before the call.\<close>

theorem coerceObject_returns_zero_on_exception:
  assumes nz: "jstr \<noteq> 0"
    and call: "JNI_callObjectMethod jstr s_Object_toString w = (Inr h, w1)"
    and pending: "JNI_exceptionCheck w1"
  shows "String_coerceObject E self jstr w = (Inr 0, w1) \<and>
         fst (String_coerceObject E self jstr w) = fst (String_coerceObject E self 0 w) \<and>
         events_since w w1 = [CallObjectMethod jstr s_Object_toString] \<and>
         exception_pending w1 \<and> chunks w1 = chunks w \<and> utfchars w1 = utfchars w \<and>
         (localrefs w jstr = Some (JavaObject Throws) \<longrightarrow> h = 0 \<and> localrefs w1 = localrefs w)"
proof -
  have 1: "String_coerceObject E self jstr w = (Inr 0, w1)"
    using nz call pending by (simp add: String_coerceObject_def andthen_def ok_def)
  have 2: "fst (String_coerceObject E self 0 w) = Inr 0"
    by (simp add: String_coerceObject_def ok_def)
  have 3: "events_since w w1 = [CallObjectMethod jstr s_Object_toString]"
    using callObjectMethod_trace [of jstr s_Object_toString w] call by (simp add: events_since_def)
  have 4: "exception_pending w1" using pending by (simp add: JNI_exceptionCheck_def)
  have 5: "chunks w1 = chunks w" "utfchars w1 = utfchars w"
    using callObjectMethod_memory [of jstr s_Object_toString w] call by simp_all
  have 6: "h = 0 \<and> localrefs w1 = localrefs w" if "localrefs w jstr = Some (JavaObject Throws)"
    using callObjectMethod_throws(1,2) [OF that, of s_Object_toString] call by simp
  from 1 2 3 4 5 6 show ?thesis by simp
qed

text \<open>The witness: the caller holds handle 1 to an object whose \<^verbatim>\<open>toString()\<close> throws.\<close>

theorem coerceObject_returns_zero_on_exception_witness:
  "(1::nat) \<noteq> 0 \<and>
   JNI_callObjectMethod 1 s_Object_toString (holding (JavaObject Throws)) =
     (Inr 0, snd (JNI_callObjectMethod 1 s_Object_toString (holding (JavaObject Throws)))) \<and>
   JNI_exceptionCheck (snd (JNI_callObjectMethod 1 s_Object_toString (holding (JavaObject Throws)))) \<and>
   localrefs (holding (JavaObject Throws)) 1 = Some (JavaObject Throws) \<and>
   String_coerceObject demo_env text_descriptor 1 (holding (JavaObject Throws)) =
     (Inr 0, snd (JNI_callObjectMethod 1 s_Object_toString (holding (JavaObject Throws)))) \<and>
   events_since (holding (JavaObject Throws))
     (snd (String_coerceObject demo_env text_descriptor 1 (holding (JavaObject Throws)))) =
     [CallObjectMethod 1 s_Object_toString] \<and>
   exception_pending (snd (String_coerceObject demo_env text_descriptor 1 (holding (JavaObject Throws)))) \<and>
   localrefs (snd (String_coerceObject demo_env text_descriptor 1 (holding (JavaObject Throws)))) =
     localrefs (holding (JavaObject Throws))"
  using demo_throwing_facts
    coerceObject_returns_zero_on_exception [OF demo_throwing_facts(1-3), of demo_env text_descriptor]
  by simp

text \<open>C4 as it is stated fails for a handle to an object whose \<^verbatim>\<open>toString()\<close> throws: the
  outcome of the call is not a failure but the normal return of 0, the same as for the
  null handle.\<close>

theorem coerceObject_failure_returns_normally:
  "localrefs (holding (JavaObject Throws)) 1 = Some (JavaObject Throws) \<and>
   fst (String_coerceObject demo_env text_descriptor 1 (holding (JavaObject Throws))) = Inr 0 \<and>
   fst (String_coerceObject demo_env text_descriptor 0 (holding (JavaObject Throws))) = Inr 0 \<and>
   \<not> isl (fst (String_coerceObject demo_env text_descriptor 1 (holding (JavaObject Throws))))"
  by (simp add: String_coerceObject_def prim_defs demo_defs)

text \<open>C5, as the code has it. \<^verbatim>\<open>_String_coerceDatum\<close> has no test of its argument: for every
  descriptor and every native value, 0 included, it invokes the stored output routine,
  once. When that routine renders a text of nonzero length that the conversion to UTF-8
  accepts, the result is a managed string object: a non-null handle to a string made of
  the converted text.\<close>

theorem coerceDatum_always_renders:
  "filter is_routine_call (events_since w (snd (String_coerceDatum E self arg w))) =
     [FunctionCall3 (textOutput self) arg (elementType self) (- 1)] \<and>
   (\<forall>bs u. output_routine E (fn_oid (textOutput self)) arg (elementType self) (- 1) = Some bs \<and>
           cstring bs \<noteq> [] \<and>
           transcoded E (GetDatabaseEncoding E) PG_UTF8 (cstring bs) = Some u \<longrightarrow>
      (\<exists>h w'. String_coerceDatum E self arg w = (Inr h, w') \<and> h \<noteq> 0 \<and>
               localrefs w' h = Some (JavaString (utf_decode E (cstring u)))))"
proof (intro conjI allI impI)
  show "filter is_routine_call (events_since w (snd (String_coerceDatum E self arg w))) =
     [FunctionCall3 (textOutput self) arg (elementType self) (- 1)]"
    by (rule coerceDatum_routine_calls)
next
  fix bs u
  assume a: "output_routine E (fn_oid (textOutput self)) arg (elementType self) (- 1) = Some bs \<and>
           cstring bs \<noteq> [] \<and>
           transcoded E (GetDatabaseEncoding E) PG_UTF8 (cstring bs) = Some u"
  then have o: "output_routine E (fn_oid (textOutput self)) arg (elementType self) (- 1) = Some bs"
    and t: "transcoded E (GetDatabaseEncoding E) PG_UTF8 (cstring bs) = Some u" by simp_all
  note cd = coerceDatum_eval [OF o t, of w]
  have "String_coerceDatum E self arg w = (Inr (Suc (refs_made w)), snd (String_coerceDatum E self arg w))"
    using cd(1) by (simp add: prod_eq_iff)
  with cd(2) show "\<exists>h w'. String_coerceDatum E self arg w = (Inr h, w') \<and> h \<noteq> 0 \<and>
               localrefs w' h = Some (JavaString (utf_decode E (cstring u)))"
    by blast
qed

text \<open>The witness: the \<^verbatim>\<open>int4\<close> value 0, which \<^verbatim>\<open>int4out\<close> renders as "0".\<close>

theorem coerceDatum_always_renders_witness:
  "output_routine demo_env (fn_oid (textOutput int4_descriptor)) 0 (elementType int4_descriptor) (- 1)
     = Some [0x30] \<and>
   cstring [0x30 :: byte] \<noteq> [] \<and>
   transcoded demo_env (GetDatabaseEncoding demo_env) PG_UTF8 (cstring [0x30]) = Some [0x30] \<and>
   filter is_routine_call
     (events_since fresh_world (snd (String_coerceDatum demo_env int4_descriptor 0 fresh_world))) =
     [FunctionCall3 (textOutput int4_descriptor) 0 (elementType int4_descriptor) (- 1)] \<and>
   (\<exists>h w'. String_coerceDatum demo_env int4_descriptor 0 fresh_world = (Inr h, w') \<and> h \<noteq> 0 \<and>
            localrefs w' h = Some (JavaString (utf_decode demo_env (cstring [0x30]))))"
proof -
  have h: "output_routine demo_env (fn_oid (textOutput int4_descriptor)) 0 (elementType int4_descriptor) (- 1)
     = Some [0x30]"
    "cstring [0x30 :: byte] \<noteq> []"
    "transcoded demo_env (GetDatabaseEncoding demo_env) PG_UTF8 (cstring [0x30]) = Some [0x30]"
    by (simp_all add: demo_defs transcoded_def)
  show ?thesis
    using h coerceDatum_always_renders [of fresh_world demo_env int4_descriptor 0]
    by blast
qed

text \<open>C5 as it is stated fails for the native value 0 of type \<^verbatim>\<open>int4\<close>: the output routine
  is invoked, and the result is not the "no object" sentinel.\<close>

theorem coerceDatum_of_zero_datum:
  "fst (String_coerceDatum demo_env int4_descriptor 0 fresh_world) \<noteq> Inr 0 \<and>
   FunctionCall3 \<lparr>fn_oid = 43\<rparr> 0 0 (- 1) \<in>
     set (events_since fresh_world (snd (String_coerceDatum demo_env int4_descriptor 0 fresh_world)))"
  by (simp add: fn_defs prim_defs demo_defs events_since_def bytes_at_def chunk_size_def Let_def)

text \<open>C6. For every descriptor, \<^verbatim>\<open>coerceObject\<close> applied to the null handle returns the
  database "no value" sentinel, 0, at once: the state is the one it started in, so
  neither \<^verbatim>\<open>toString()\<close> nor the stored input routine was invoked and the trace has no new
  event.\<close>

theorem coerceObject_null_short_circuit:
  "String_coerceObject E self 0 w = (Inr 0, w) \<and>
   events_since w (snd (String_coerceObject E self 0 w)) = []"
  by (simp add: String_coerceObject_def ok_def events_since_def)

text \<open>C7 at the empty C string. \<^verbatim>\<open>String_createJavaStringFromNTS\<close> has no test of the
  length: for a pointer to an empty NUL-terminated string it invokes the conversion
  primitive with length 0, has the VM make a string, and returns a non-null handle to an
  empty managed string, where \<^verbatim>\<open>String_createJavaString\<close> returns 0 for a \<^verbatim>\<open>text\<close> of length
  zero before it calls anything.\<close>

theorem createJavaStringFromNTS_of_empty_string:
  "chunks (with_cstring []) 1 = Some (CString []) \<and>
   fst (String_createJavaStringFromNTS demo_env 1 (with_cstring [])) = Inr 1 \<and>
   localrefs (snd (String_createJavaStringFromNTS demo_env 1 (with_cstring []))) 1 = Some (JavaString []) \<and>
   events_since (with_cstring []) (snd (String_createJavaStringFromNTS demo_env 1 (with_cstring []))) =
     [EncodingConversion 1 0 PG_LATIN1 PG_UTF8 (Some 1), NewStringUTF 1 1]"
  by (simp add: fn_defs prim_defs demo_defs events_since_def bytes_at_def chunk_size_def Let_def)

text \<open>C8, as the code has it. \<^verbatim>\<open>_String_coerceObject\<close> makes no test of the type of its
  argument: for every non-null managed handle, whether or not its object is already a
  string, it invokes \<^verbatim>\<open>toString()\<close> on the handle, exactly once.\<close>

theorem coerceObject_always_stringifies:
  assumes "jstr \<noteq> 0"
  shows "filter is_stringify (events_since w (snd (String_coerceObject E self jstr w))) =
           [CallObjectMethod jstr s_Object_toString]"
proof -
  obtain r w1 where c: "JNI_callObjectMethod jstr s_Object_toString w = (r, w1)"
    by (cases "JNI_callObjectMethod jstr s_Object_toString w")
  have t: "trace w1 = trace w @ [CallObjectMethod jstr s_Object_toString]"
    using callObjectMethod_trace [of jstr s_Object_toString w] c by simp
  have q: "quiet is_stringify w1 (snd (String_coerceObject E self jstr w))"
  proof (cases r)
    case (Inl e)
    with c assms show ?thesis by (simp add: String_coerceObject_def andthen_def)
  next
    case (Inr h)
    have "quiet is_stringify w1
           (snd (andthen (String_createNTS E h w1) (\<lambda>tmp w.
              let w = JNI_deleteLocalRef h w
              in andthen (FunctionCall3_input E (textInput self) (CStringGetDatum tmp)
                            (elementType self) (- 1) w) (\<lambda>ret w.
                 andthen (pfree tmp w) (\<lambda>_ w. ok ret w)))))"
      by (rule quiet_coerceObject_rest)
    with c Inr assms show ?thesis by (simp add: String_coerceObject_def andthen_def)
  qed
  show ?thesis using t _ q by (rule filter_events_after) simp
qed

text \<open>The witness: handle 1 to a \<^verbatim>\<open>java.lang.String\<close>.\<close>

theorem coerceObject_always_stringifies_witness:
  "(1::nat) \<noteq> 0 \<and>
   filter is_stringify
     (events_since (holding (JavaString hello_acute_utf16))
        (snd (String_coerceObject demo_env text_descriptor 1 (holding (JavaString hello_acute_utf16))))) =
     [CallObjectMethod 1 s_Object_toString]"
  using coerceObject_always_stringifies [of 1 "holding (JavaString hello_acute_utf16)" demo_env text_descriptor]
  by simp

text \<open>C8 as it is stated fails for a handle whose object is a \<^verbatim>\<open>java.lang.String\<close>:
  \<^verbatim>\<open>toString()\<close> is invoked on it all the same.\<close>

theorem coerceObject_stringifies_a_string:
  "localrefs (holding (JavaString hello_acute_utf16)) 1 = Some (JavaString hello_acute_utf16) \<and>
   CallObjectMethod 1 s_Object_toString \<in>
     set (events_since (holding (JavaString hello_acute_utf16))
           (snd (String_coerceObject demo_env text_descriptor 1
                  (holding (JavaString hello_acute_utf16)))))"
  by (simp add: fn_defs prim_defs demo_defs events_since_def bytes_at_def chunk_size_def Let_def)

text \<open>C9. Fallback universality: for every descriptor of the String kind and every
  candidate type, \<^verbatim>\<open>canReplaceType\<close> returns true.\<close>

theorem String_canReplaceType_always:
  "String_canReplaceType self type = True"
  by (simp add: String_canReplaceType_def)

text \<open>C10. \<^verbatim>\<open>String_createNTS\<close> always yields an owned copy. For every non-null handle
  to a managed string whose UTF-8 bytes the conversion accepts, whether the conversion
  returns its input pointer or a new buffer, \<^verbatim>\<open>String_createNTS\<close> returns a non-null
  pointer \<open>r\<close> that differs from the buffer the VM handed out, that was not allocated
  before the call and was obtained from \<^verbatim>\<open>palloc\<close> during it, that holds the converted
  text, and that the function itself has not released: \<^verbatim>\<open>pfree\<close> of \<open>r\<close> succeeds. Its
  caller \<^verbatim>\<open>_String_coerceObject\<close>, on the same handle, returns the value of the stored
  input routine and releases exactly \<open>r\<close>.\<close>

theorem createNTS_owned_copy:
  assumes nz: "javaString \<noteq> 0" and str: "localrefs w javaString = Some (JavaString cs)"
    and heap: "heap_ok w"
    and tr: "transcoded E PG_UTF8 (GetDatabaseEncoding E) (cstring (utf_encode E cs)) = Some v"
  shows "\<exists>r w'. String_createNTS E javaString w = (Inr r, w') \<and>
           GetStringUTFChars javaString (Suc (brk w)) \<in> set (events_since w w') \<and>
           r \<noteq> 0 \<and> r \<noteq> Suc (brk w) \<and> chunks w r = None \<and>
           Palloc r \<in> set (events_since w w') \<and>
           chunks w' r = Some (CString v) \<and>
           released (events_since w w') = [] \<and>
           fst (pfree r w') = Inr () \<and>
           (\<forall>(self :: String_) d. \<not> exception_pending w \<and>
              input_routine E (fn_oid (textInput self)) (cstring v) (elementType self) (- 1) = Some d \<longrightarrow>
              fst (String_coerceObject E self javaString w) = Inr d \<and>
              released (events_since w (snd (String_coerceObject E self javaString w))) = [r])"
proof -
  let ?r = "Suc (Suc (Suc (brk w + length (utf_encode E cs))))"
  let ?w' = "snd (String_createNTS E javaString w)"
  note ev = createNTS_eval [OF nz str heap tr]
  have 1: "String_createNTS E javaString w = (Inr ?r, ?w')"
    using ev(1) by (simp add: prod_eq_iff)
  have 2: "chunks w ?r = None" using heap by (simp add: heap_ok_def)
  have 3: "chunks ?w' ?r = Some (CString v)" using ev(2) by simp
  have 4: "fst (pfree ?r ?w') = Inr ()" using 3 by (simp add: pfree_def ok_def)
  have 5: "\<forall>(self :: String_) d. \<not> exception_pending w \<and>
              input_routine E (fn_oid (textInput self)) (cstring v) (elementType self) (- 1) = Some d \<longrightarrow>
              fst (String_coerceObject E self javaString w) = Inr d \<and>
              released (events_since w (snd (String_coerceObject E self javaString w))) = [?r]"
  proof (intro allI impI)
    fix self :: String_ and d
    assume a: "\<not> exception_pending w \<and>
              input_routine E (fn_oid (textInput self)) (cstring v) (elementType self) (- 1) = Some d"
    have s: "stringified (localrefs w javaString) = Some cs" using str by simp
    note co = coerceObject_eval [OF nz s heap _ tr, of self]
    from a co show "fst (String_coerceObject E self javaString w) = Inr d \<and>
              released (events_since w (snd (String_coerceObject E self javaString w))) = [?r]"
      by simp
  qed
  from 1 2 3 4 5 ev(6) ev(7) ev(8) show ?thesis by (intro exI [of _ ?r] exI [of _ ?w']) simp
qed

text \<open>The witness: a UTF-8 database, where the conversion returns its input pointer and
  \<^verbatim>\<open>pstrdup\<close> makes the copy.\<close>

theorem createNTS_owned_copy_witness:
  "(1::nat) \<noteq> 0 \<and>
   localrefs (holding (JavaString hello_utf16)) 1 = Some (JavaString hello_utf16) \<and>
   heap_ok (holding (JavaString hello_utf16)) \<and>
   transcoded demo_env_utf8 PG_UTF8 (GetDatabaseEncoding demo_env_utf8)
     (cstring (utf_encode demo_env_utf8 hello_utf16)) = Some hello \<and>
   \<not> exception_pending (holding (JavaString hello_utf16)) \<and>
   input_routine demo_env_utf8 (fn_oid (textInput text_descriptor)) (cstring hello)
     (elementType text_descriptor) (- 1) = Some 1 \<and>
   (\<exists>r w'. String_createNTS demo_env_utf8 1 (holding (JavaString hello_utf16)) = (Inr r, w') \<and>
      GetStringUTFChars 1 (Suc (brk (holding (JavaString hello_utf16))))
        \<in> set (events_since (holding (JavaString hello_utf16)) w') \<and>
      r \<noteq> 0 \<and> r \<noteq> Suc (brk (holding (JavaString hello_utf16))) \<and>
      chunks (holding (JavaString hello_utf16)) r = None \<and>
      Palloc r \<in> set (events_since (holding (JavaString hello_utf16)) w') \<and>
      chunks w' r = Some (CString hello) \<and>
      released (events_since (holding (JavaString hello_utf16)) w') = [] \<and>
      fst (pfree r w') = Inr () \<and>
      fst (String_coerceObject demo_env_utf8 text_descriptor 1 (holding (JavaString hello_utf16))) =
        Inr 1 \<and>
      released
        (events_since (holding (JavaString hello_utf16))
           (snd (String_coerceObject demo_env_utf8 text_descriptor 1
                  (holding (JavaString hello_utf16))))) = [r])"
  using demo_string_facts createNTS_owned_copy [OF demo_string_facts(1-4)]
  by blast

end
